theory Spec2Isabelle
  imports Complex_Main "HOL-Library.AList"
begin

section \<open>The combined screener scanner: data model\<close>

text \<open>
  The scanner (\<^verbatim>\<open>combined-chartink-scanner.py\<close>) polls three screeners, classifies the
  market direction from two index probes, filters every screener's rows against that
  direction, joins the symbols seen by at least two screeners and writes the result to a
  JSON file. Everything that talks to the browser is outside the embedding: what a page
  load, a scan click or a table read produced in one cycle is an input of the model.
\<close>

subsection \<open>Moments in time\<close>

text \<open>
  A \<^verbatim>\<open>datetime\<close> in the fixed zone Asia/Kolkata. The date is kept as its proleptic
  ordinal (\<^verbatim>\<open>toordinal()\<close>, day 1 is Monday 0001-01-01), from which Python computes
  \<^verbatim>\<open>weekday()\<close> as \<^verbatim>\<open>(toordinal() + 6) % 7\<close>.
\<close>

record datetime =
  ordinal :: nat
  hour :: nat
  minute :: nat
  second :: nat
  microsecond :: nat

definition weekday :: "datetime \<Rightarrow> nat" where
  "weekday d = (ordinal d + 6) mod 7"

text \<open>Lexicographic comparison of the field tuples, as \<^verbatim>\<open><=\<close> on two datetimes of one zone.\<close>

fun lex_le :: "nat list \<Rightarrow> nat list \<Rightarrow> bool" where
  "lex_le [] ys = True"
| "lex_le (x # xs) [] = False"
| "lex_le (x # xs) (y # ys) = (x < y \<or> (x = y \<and> lex_le xs ys))"

definition dt_fields :: "datetime \<Rightarrow> nat list" where
  "dt_fields d = [ordinal d, hour d, minute d, second d, microsecond d]"

definition dt_le :: "datetime \<Rightarrow> datetime \<Rightarrow> bool" where
  "dt_le a b = lex_le (dt_fields a) (dt_fields b)"

text \<open>
  \<^verbatim>\<open>is_market_hours\<close>, with the moment returned by \<^verbatim>\<open>get_ist_time()\<close> as argument.
  \<^verbatim>\<open>now.replace(hour=.., minute=.., second=..)\<close> leaves the date and the microsecond of
  \<^verbatim>\<open>now\<close> in place.
\<close>

definition is_market_hours :: "datetime \<Rightarrow> bool" where
  "is_market_hours now =
     (if weekday now \<ge> 5 then False
      else
        let market_start = now\<lparr>hour := 0, minute := 0, second := 0\<rparr>;
            market_end = now\<lparr>hour := 23, minute := 59, second := 0\<rparr>;
            is_open = (dt_le market_start now \<and> dt_le now market_end)
        in is_open)"

subsection \<open>Python values that reach the trend classifier\<close>

text \<open>
  A Python float is a finite real, an infinity or NaN; only its comparison with zero is
  used, which is exact. \<^verbatim>\<open>float(text)\<close> and \<^verbatim>\<open>int(text)\<close> are the interpreter's own
  parsers: the functions below take them as parameters. A parser returns the number, or
  the message of the \<^verbatim>\<open>ValueError\<close> it raises (\<open>Inl\<close>).
\<close>

datatype pyfloat = Finite real | PosInf | NegInf | NaN

datatype pyval = PyNone | PyStr string | PyInt int | PyFloat pyfloat

text \<open>\<^verbatim>\<open>x > 0\<close> on a float: every comparison with NaN is false.\<close>

fun float_gt_zero :: "pyfloat \<Rightarrow> bool" where
  "float_gt_zero (Finite r) = (r > 0)"
| "float_gt_zero PosInf = True"
| "float_gt_zero NegInf = False"
| "float_gt_zero NaN = False"

text \<open>
  \<^verbatim>\<open>determine_stock_trend\<close>: a string is parsed first; the comparison \<^verbatim>\<open>change_val > 0\<close>
  raises \<^verbatim>\<open>TypeError\<close> on \<^verbatim>\<open>None\<close>; both exceptions give \<^verbatim>\<open>"unknown"\<close>.
\<close>

fun determine_stock_trend :: "(string \<Rightarrow> string + pyfloat) \<Rightarrow> pyval \<Rightarrow> string" where
  "determine_stock_trend py_float (PyStr s) =
     (case py_float s of
        Inl e \<Rightarrow> ''unknown''
      | Inr change_val \<Rightarrow> if float_gt_zero change_val then ''bullish'' else ''bearish'')"
| "determine_stock_trend py_float (PyInt i) = (if i > 0 then ''bullish'' else ''bearish'')"
| "determine_stock_trend py_float (PyFloat change_val) =
     (if float_gt_zero change_val then ''bullish'' else ''bearish'')"
| "determine_stock_trend py_float PyNone = ''unknown''"

subsection \<open>Exceptions\<close>

text \<open>
  The exceptions the modelled code raises or lets through. \<open>OSError\<close> stands for any
  \<^verbatim>\<open>Exception\<close> of a file operation; \<open>KeyboardInterrupt\<close> is the one exception here
  that \<^verbatim>\<open>except Exception\<close> does not catch.
\<close>

datatype exn = ValueError string | KeyError string | OSError string | KeyboardInterrupt

fun is_Exception :: "exn \<Rightarrow> bool" where
  "is_Exception KeyboardInterrupt = False"
| "is_Exception e = True"

subsection \<open>Record validation\<close>

text \<open>\<^verbatim>\<open>text.replace(c, '')\<close>: every occurrence of the character is dropped.\<close>

definition replace_with_empty :: "char \<Rightarrow> string \<Rightarrow> string" where
  "replace_with_empty c text = filter (\<lambda>x. x \<noteq> c) text"

text \<open>
  One of the three statements \<^verbatim>\<open>if field: field = parse(field.replace(...))\<close>: \<^verbatim>\<open>if field:\<close>
  is false for \<open>None\<close> and for the empty text, and such a field is left as it is
  (\<open>Inr None\<close>); otherwise the stripped text is parsed, which gives the number or the
  message of the \<^verbatim>\<open>ValueError\<close>.
\<close>

definition convert_if_truthy :: "(string \<Rightarrow> string + 'a) \<Rightarrow> string option \<Rightarrow> string + 'a option" where
  "convert_if_truthy parse_stripped field =
     (case field of
        None \<Rightarrow> Inr None
      | Some text \<Rightarrow>
          if text = [] then Inr None
          else (case parse_stripped text of Inl e \<Rightarrow> Inl e | Inr v \<Rightarrow> Inr (Some v)))"

text \<open>
  \<^verbatim>\<open>validate_stock_data(symbol, price, change=None, volume=None)\<close>. The price and the
  volume lose their commas before parsing, the change its percent signs and its commas.
  The first parse failure is re-raised as \<^verbatim>\<open>ValueError(f"Invalid value format: {e}")\<close>;
  the parsed numbers are local and the function returns \<^verbatim>\<open>True\<close>. (\<open>length\<close> counts
  characters of the ASCII symbols the screener tables hold.)
\<close>

definition validate_stock_data ::
  "(string \<Rightarrow> string + pyfloat) \<Rightarrow> (string \<Rightarrow> string + int) \<Rightarrow>
   string \<Rightarrow> string option \<Rightarrow> string option \<Rightarrow> string option \<Rightarrow> exn + bool" where
  "validate_stock_data py_float py_int symbol price change volume =
     (if symbol = [] \<or> length symbol < 2 then Inl (ValueError (''Invalid symbol: '' @ symbol))
      else
        (case convert_if_truthy (\<lambda>text. py_float (replace_with_empty CHR '','' text)) price of
           Inl e \<Rightarrow> Inl (ValueError (''Invalid value format: '' @ e))
         | Inr price \<Rightarrow>
        (case convert_if_truthy
                (\<lambda>text. py_float (replace_with_empty CHR '','' (replace_with_empty CHR ''%'' text)))
                change of
           Inl e \<Rightarrow> Inl (ValueError (''Invalid value format: '' @ e))
         | Inr change \<Rightarrow>
        (case convert_if_truthy (\<lambda>text. py_int (replace_with_empty CHR '','' text)) volume of
           Inl e \<Rightarrow> Inl (ValueError (''Invalid value format: '' @ e))
         | Inr volume \<Rightarrow> Inr True))))"

text \<open>
  Python's \<^verbatim>\<open>int\<close> and \<^verbatim>\<open>float\<close> on plain decimal literals (an optional sign, digits,
  for \<^verbatim>\<open>float\<close> an optional point), for the worked examples. The empty text and any text
  with another character are rejected, as Python rejects them, with Python's message
  (\<open>py_repr\<close> is \<^verbatim>\<open>repr\<close> on a text without quotes, backslashes or control characters). The
  examples use no exponent, blank, underscore, \<^verbatim>\<open>inf\<close> or \<^verbatim>\<open>nan\<close>, and only values a
  double holds exactly.
\<close>

definition py_repr :: "string \<Rightarrow> string" where
  "py_repr text = CHR 0x27 # text @ [CHR 0x27]"

definition digit_of :: "char \<Rightarrow> nat option" where
  "digit_of c =
     (if of_char c \<ge> (48::nat) \<and> of_char c \<le> (57::nat) then Some (of_char c - 48) else None)"

fun digits_value :: "string \<Rightarrow> nat \<Rightarrow> nat option" where
  "digits_value [] acc = Some acc"
| "digits_value (c # cs) acc =
     (case digit_of c of None \<Rightarrow> None | Some d \<Rightarrow> digits_value cs (10 * acc + d))"

definition split_sign :: "string \<Rightarrow> bool \<times> string" where
  "split_sign text =
     (case text of
        [] \<Rightarrow> (False, [])
      | c # rest \<Rightarrow>
          if c = CHR ''-'' then (True, rest)
          else if c = CHR ''+'' then (False, rest)
          else (False, text))"

definition decimal_int :: "string \<Rightarrow> string + int" where
  "decimal_int text =
     (let (neg, body) = split_sign text in
      if body = [] then Inl (''invalid literal for int() with base 10: '' @ py_repr text)
      else case digits_value body 0 of
             None \<Rightarrow> Inl (''invalid literal for int() with base 10: '' @ py_repr text)
           | Some m \<Rightarrow> Inr (if neg then - int m else int m))"

definition decimal_float :: "string \<Rightarrow> string + pyfloat" where
  "decimal_float text =
     (let (neg, body) = split_sign text;
          whole = takeWhile (\<lambda>c. c \<noteq> CHR ''.'') body;
          frac = drop 1 (dropWhile (\<lambda>c. c \<noteq> CHR ''.'') body)
      in if whole @ frac = [] then Inl (''could not convert string to float: '' @ py_repr text)
         else case digits_value (whole @ frac) 0 of
                None \<Rightarrow> Inl (''could not convert string to float: '' @ py_repr text)
              | Some m \<Rightarrow>
                  Inr (Finite ((if neg then - real m else real m) / 10 ^ length frac)))"

subsection \<open>Stocks and the alignment filter\<close>

text \<open>
  One row of a screener table as \<^verbatim>\<open>extract_stock_data\<close> builds it. The key
  \<^verbatim>\<open>'market_bias'\<close> is absent from the dict until the filter writes it.
\<close>

record stock =
  symbol :: string
  price :: pyfloat
  change :: pyfloat
  volume :: int
  stock_trend :: string
  screener_type :: string
  market_bias :: "string option"

text \<open>
  \<^verbatim>\<open>filter_stocks_by_market_trend\<close>. The loop writes the bias into every dict of the input
  list, kept or not, and appends the kept dicts themselves to the result. The model
  returns both lists: the input as the call leaves it, and the returned list.
\<close>

fun filter_stocks_by_market_trend :: "stock list \<Rightarrow> string \<Rightarrow> stock list \<times> stock list" where
  "filter_stocks_by_market_trend [] bias = ([], [])"
| "filter_stocks_by_market_trend (stock # rest) bias =
     (let stock' = stock\<lparr>market_bias := Some bias\<rparr>;
          (rest', filtered_stocks) = filter_stocks_by_market_trend rest bias
      in if bias = ''bullish'' \<and> stock_trend stock' = ''bullish''
           then (stock' # rest', stock' # filtered_stocks)
         else if bias = ''bearish'' \<and> stock_trend stock' = ''bearish''
           then (stock' # rest', stock' # filtered_stocks)
         else if bias = ''neutral''
           then (stock' # rest', stock' # filtered_stocks)
         else (stock' # rest', filtered_stocks))"

subsection \<open>Market bias from the two index probes\<close>

text \<open>
  What one probe page gave in this cycle: whether \<^verbatim>\<open>load_page\<close> and \<^verbatim>\<open>run_scan\<close>
  returned true, and the table rows (\<open>None\<close> when waiting for the table raised; a row is
  \<open>None\<close> when reading its symbol cell raised and the row is skipped).
\<close>

record probe_result =
  probe_loaded :: bool
  probe_scanned :: bool
  probe_rows :: "string option list option"

definition probe_indices :: "probe_result \<Rightarrow> string list" where
  "probe_indices p =
     (if probe_loaded p then
        if probe_scanned p then
          (case probe_rows p of
             None \<Rightarrow> []
           | Some rows \<Rightarrow> concat (map (\<lambda>row. case row of None \<Rightarrow> [] | Some cell \<Rightarrow> [cell]) rows))
        else []
      else [])"

definition key_indices :: "string list" where
  "key_indices = [''NIFTY'', ''BANKNIFTY'', ''NIFTYFINSERVICE'']"

definition key_count :: "string list \<Rightarrow> nat" where
  "key_count indices = length (filter (\<lambda>idx. idx \<in> set indices) key_indices)"

subsection \<open>The persisted state and the files\<close>

record combined_stock =
  cs_symbol :: string
  cs_price :: pyfloat
  cs_change :: pyfloat
  cs_volume :: int
  cs_stock_trend :: string
  cs_market_bias :: string
  screeners_found_in :: "string list"
  match_count :: nat

text \<open>
  The dict kept in \<^verbatim>\<open>combined_scan_results.json\<close>. \<^verbatim>\<open>'screeners'\<close> is a dict from
  screener name to that screener's stocks, kept as an association list in insertion
  order. \<^verbatim>\<open>'last_update'\<close> is the formatted moment of the cycle (\<open>None\<close> for the initial
  empty text).
\<close>

record results_data =
  last_update :: "datetime option"
  rd_market_bias :: string
  screeners :: "(string \<times> stock list) list"
  combined_stocks :: "combined_stock list"

record market_data =
  md_timestamp :: datetime
  md_market_bias :: string
  bullish_indices :: "string list"
  bearish_indices :: "string list"

definition default_results :: results_data where
  "default_results =
     \<lparr>last_update = None, rd_market_bias = ''unknown'',
      screeners = [(''price_crossover_200'', []), (''one_hour_rsi'', []), (''five_min_rsi'', [])],
      combined_stocks = []\<rparr>"

text \<open>\<^verbatim>\<open>d[k]\<close> raises \<^verbatim>\<open>KeyError\<close> on a missing key; \<^verbatim>\<open>d[k] = v\<close> keeps the key's place.\<close>

definition dict_get :: "(string \<times> 'v) list \<Rightarrow> string \<Rightarrow> exn + 'v" where
  "dict_get d k = (case map_of d k of None \<Rightarrow> Inl (KeyError k) | Some v \<Rightarrow> Inr v)"

text \<open>\<^verbatim>\<open>d.get(k, [])\<close>, and \<^verbatim>\<open>d[k]\<close> for a key known to be present.\<close>

definition get_or_empty :: "(string \<times> 'v list) list \<Rightarrow> string \<Rightarrow> 'v list" where
  "get_or_empty d k = (case map_of d k of None \<Rightarrow> [] | Some l \<Rightarrow> l)"

definition dict_set :: "(string \<times> 'v) list \<Rightarrow> string \<Rightarrow> 'v \<Rightarrow> (string \<times> 'v) list" where
  "dict_set d k v = AList.update k v d"

text \<open>
  A file holds the complete \<^verbatim>\<open>json.dump\<close> of a value or a cut-off one, which
  \<^verbatim>\<open>json.load\<close> rejects. The three paths the program touches are \<^verbatim>\<open>RESULTS_FILE\<close>,
  \<^verbatim>\<open>RESULTS_FILE + ".tmp"\<close> and \<^verbatim>\<open>MARKET_TREND_FILE\<close>; \<open>None\<close> is a path that does
  not exist.
\<close>

datatype 'a file_text = Dumped 'a | Partial

record files =
  results_file :: "results_data file_text option"
  temp_file :: "results_data file_text option"
  market_trend_file :: "market_data file_text option"

text \<open>Which step of a write raises an \<^verbatim>\<open>Exception\<close>, if any.\<close>

datatype io_fault = OpenFails | DumpFails | ReplaceFails

text \<open>
  \<^verbatim>\<open>check_market_trend\<close>: the variable \<^verbatim>\<open>market_bias\<close> starts as \<^verbatim>\<open>"unknown"\<close> and is
  then assigned in every branch of the comparison. The snapshot is written with a plain
  \<^verbatim>\<open>open(..., 'w')\<close> outside any \<^verbatim>\<open>try\<close>: a failure there leaves the function as an
  exception (there is no replace step, so \<open>ReplaceFails\<close> does not arise here).
\<close>

definition check_market_trend ::
  "probe_result \<Rightarrow> probe_result \<Rightarrow> datetime \<Rightarrow> io_fault option \<Rightarrow> files \<Rightarrow> (exn + string) \<times> files" where
  "check_market_trend bullish_page bearish_page stamp fault fs =
     (let market_bias = ''unknown'';
          bullish_indices = probe_indices bullish_page;
          bearish_indices = probe_indices bearish_page;
          bullish_count = key_count bullish_indices;
          bearish_count = key_count bearish_indices;
          market_bias = (if bullish_count > bearish_count then ''bullish''
                         else if bearish_count > bullish_count then ''bearish''
                         else ''neutral'');
          market_data = \<lparr>md_timestamp = stamp, md_market_bias = market_bias,
                         bullish_indices = bullish_indices, bearish_indices = bearish_indices\<rparr>
      in case fault of
           Some OpenFails \<Rightarrow> (Inl (OSError ''market_trend.json''), fs)
         | Some DumpFails \<Rightarrow>
             (Inl (OSError ''market_trend.json''), fs\<lparr>market_trend_file := Some Partial\<rparr>)
         | _ \<Rightarrow> (Inr market_bias, fs\<lparr>market_trend_file := Some (Dumped market_data)\<rparr>))"

text \<open>
  \<^verbatim>\<open>save_scan_results\<close>. The \<^verbatim>\<open>try\<close> body has three steps: it opens the temporary file
  for writing (which creates or empties it), dumps the data into it, and replaces the
  results file by the temporary one; \<^verbatim>\<open>os.replace\<close> either moves the file or raises and
  moves nothing. The first step that raises ends the body. The handler removes the
  temporary file if it exists and re-raises.
\<close>

definition open_temp :: "io_fault option \<Rightarrow> files \<Rightarrow> (exn + unit) \<times> files" where
  "open_temp fault fs =
     (if fault = Some OpenFails then (Inl (OSError ''combined_scan_results.json.tmp''), fs)
      else (Inr (), fs\<lparr>temp_file := Some Partial\<rparr>))"

definition dump_temp :: "results_data \<Rightarrow> io_fault option \<Rightarrow> files \<Rightarrow> (exn + unit) \<times> files" where
  "dump_temp data fault fs =
     (if fault = Some DumpFails then (Inl (OSError ''combined_scan_results.json.tmp''), fs)
      else (Inr (), fs\<lparr>temp_file := Some (Dumped data)\<rparr>))"

definition os_replace :: "io_fault option \<Rightarrow> files \<Rightarrow> (exn + unit) \<times> files" where
  "os_replace fault fs =
     (if fault = Some ReplaceFails then (Inl (OSError ''combined_scan_results.json''), fs)
      else (Inr (), fs\<lparr>results_file := temp_file fs, temp_file := None\<rparr>))"

definition save_try_body :: "results_data \<Rightarrow> io_fault option \<Rightarrow> files \<Rightarrow> (exn + unit) \<times> files" where
  "save_try_body data fault fs =
     (case open_temp fault fs of
        (Inl e, fs1) \<Rightarrow> (Inl e, fs1)
      | (Inr u, fs1) \<Rightarrow>
          (case dump_temp data fault fs1 of
             (Inl e, fs2) \<Rightarrow> (Inl e, fs2)
           | (Inr u, fs2) \<Rightarrow> os_replace fault fs2))"

definition save_scan_results :: "results_data \<Rightarrow> io_fault option \<Rightarrow> files \<Rightarrow> (exn + unit) \<times> files" where
  "save_scan_results data fault fs =
     (case save_try_body data fault fs of
        (Inl e, fs') \<Rightarrow>
          (Inl e, if temp_file fs' \<noteq> None then fs'\<lparr>temp_file := None\<rparr> else fs')
      | (Inr u, fs') \<Rightarrow> (Inr u, fs'))"

text \<open>
  \<^verbatim>\<open>load_current_results\<close>: the default dict when the file is missing, and also when
  reading it raises.
\<close>

definition load_current_results :: "files \<Rightarrow> results_data" where
  "load_current_results fs =
     (case results_file fs of
        None \<Rightarrow> default_results
      | Some (Dumped data) \<Rightarrow> data
      | Some Partial \<Rightarrow> default_results)"

definition initialize_results_file :: "files \<Rightarrow> files" where
  "initialize_results_file fs =
     (if results_file fs = None then fs\<lparr>results_file := Some (Dumped default_results)\<rparr> else fs)"

subsection \<open>Scanning one screener\<close>

text \<open>
  What the browser gives for a screener page in this cycle: the results of \<^verbatim>\<open>load_page\<close>
  and \<^verbatim>\<open>run_scan\<close>, and the list \<^verbatim>\<open>extract_stock_data\<close> returns (empty when the
  extraction fails). The browser of a cycle is a function from URL to this outcome.
\<close>

record scan_result =
  page_loaded :: bool
  scan_ran :: bool
  extracted :: "stock list"

definition SCREENER_URLS :: "(string \<times> string) list" where
  "SCREENER_URLS =
     [(''price_crossover_200'', ''https://chartink.com/screener/price-corssover-200''),
      (''one_hour_rsi'', ''https://chartink.com/screener/1-hour-rsi-2119''),
      (''five_min_rsi'', ''https://chartink.com/screener/5-minutes-rsi-100'')]"

definition run_screener ::
  "(string \<Rightarrow> scan_result) \<Rightarrow> string \<Rightarrow> string \<Rightarrow> string \<Rightarrow> results_data \<Rightarrow> results_data" where
  "run_screener driver kind url bias results =
     (if page_loaded (driver url) then
        if scan_ran (driver url) then
          (let all_stock_data = extracted (driver url) in
           if all_stock_data \<noteq> [] then
             (let filtered_stock_data = snd (filter_stocks_by_market_trend all_stock_data bias)
              in results\<lparr>screeners := dict_set (screeners results) kind filtered_stock_data\<rparr>)
           else results\<lparr>screeners := dict_set (screeners results) kind []\<rparr>)
        else results
      else results)"

text \<open>The loop \<^verbatim>\<open>for screener_type, url in SCREENER_URLS.items()\<close> of \<^verbatim>\<open>main\<close>.\<close>

fun run_screeners ::
  "(string \<Rightarrow> scan_result) \<Rightarrow> (string \<times> string) list \<Rightarrow> string \<Rightarrow> results_data \<Rightarrow> results_data" where
  "run_screeners driver [] bias results = results"
| "run_screeners driver ((kind, url) # rest) bias results =
     run_screeners driver rest bias (run_screener driver kind url bias results)"

subsection \<open>Cross-screener aggregation\<close>

text \<open>
  A Python set of symbols is a duplicate-free list; the order in which Python iterates
  a set is not fixed, and no statement below depends on the order chosen here.
\<close>

definition symbol_set :: "stock list \<Rightarrow> string list" where
  "symbol_set stocks = remdups (map symbol stocks)"

definition set_and :: "string list \<Rightarrow> string list \<Rightarrow> string list" where
  "set_and a b = filter (\<lambda>x. x \<in> set b) a"

definition set_minus :: "string list \<Rightarrow> string list \<Rightarrow> string list" where
  "set_minus a b = filter (\<lambda>x. x \<notin> set b) a"

definition set_update :: "string list \<Rightarrow> string list \<Rightarrow> string list" where
  "set_update acc new = acc @ filter (\<lambda>x. x \<notin> set acc) new"

text \<open>
  Lines 356 to 381. In Python \<^verbatim>\<open>-\<close> binds tighter than \<^verbatim>\<open>&\<close>, so
  \<^verbatim>\<open>a & b - c\<close> is \<^verbatim>\<open>a & (b - c)\<close>.
\<close>

definition combined_symbols_of :: "string list \<Rightarrow> string list \<Rightarrow> string list \<Rightarrow> string list" where
  "combined_symbols_of price_crossover_symbols one_hour_rsi_symbols five_min_rsi_symbols =
     (let combined_symbols = [];
          symbols_in_all = set_and (set_and price_crossover_symbols one_hour_rsi_symbols) five_min_rsi_symbols;
          combined_symbols = (if symbols_in_all \<noteq> [] then set_update combined_symbols symbols_in_all
                              else combined_symbols);
          symbols_in_pc_and_1h = set_and price_crossover_symbols (set_minus one_hour_rsi_symbols five_min_rsi_symbols);
          combined_symbols = (if symbols_in_pc_and_1h \<noteq> [] then set_update combined_symbols symbols_in_pc_and_1h
                              else combined_symbols);
          symbols_in_pc_and_5m = set_and price_crossover_symbols (set_minus five_min_rsi_symbols one_hour_rsi_symbols);
          combined_symbols = (if symbols_in_pc_and_5m \<noteq> [] then set_update combined_symbols symbols_in_pc_and_5m
                              else combined_symbols);
          symbols_in_1h_and_5m = set_and one_hour_rsi_symbols (set_minus five_min_rsi_symbols price_crossover_symbols);
          combined_symbols = (if symbols_in_1h_and_5m \<noteq> [] then set_update combined_symbols symbols_in_1h_and_5m
                              else combined_symbols)
      in combined_symbols)"

text \<open>
  Lines 387 to 394: the dict from symbol to the stocks carrying it, filled in the order of
  \<^verbatim>\<open>results_data['screeners'].items()\<close>, every stock of every list.
\<close>

fun index_stocks :: "stock list \<Rightarrow> (string \<times> stock list) list \<Rightarrow> (string \<times> stock list) list" where
  "index_stocks [] all_stocks_by_symbol = all_stocks_by_symbol"
| "index_stocks (stock # rest) all_stocks_by_symbol =
     (let all_stocks_by_symbol =
            (if map_of all_stocks_by_symbol (symbol stock) = None
             then dict_set all_stocks_by_symbol (symbol stock) []
             else all_stocks_by_symbol);
          instances = get_or_empty all_stocks_by_symbol (symbol stock)
      in index_stocks rest (dict_set all_stocks_by_symbol (symbol stock) (instances @ [stock])))"

fun index_screeners ::
  "(string \<times> stock list) list \<Rightarrow> (string \<times> stock list) list \<Rightarrow> (string \<times> stock list) list" where
  "index_screeners [] all_stocks_by_symbol = all_stocks_by_symbol"
| "index_screeners ((kind, stocks_list) # rest) all_stocks_by_symbol =
     index_screeners rest (index_stocks stocks_list all_stocks_by_symbol)"

text \<open>
  Lines 397 to 419 for one symbol: \<open>Inr None\<close> is \<^verbatim>\<open>continue\<close>; reading
  \<^verbatim>\<open>base_stock['market_bias']\<close> raises \<^verbatim>\<open>KeyError\<close> on a stock the filter never saw.
\<close>

definition combined_entry :: "(string \<times> stock list) list \<Rightarrow> string \<Rightarrow> exn + combined_stock option" where
  "combined_entry all_stocks_by_symbol name =
     (let stock_instances = get_or_empty all_stocks_by_symbol name in
      case stock_instances of
        [] \<Rightarrow> Inr None
      | base_stock # others \<Rightarrow>
          (let screeners_found_in = map screener_type stock_instances in
           case market_bias base_stock of
             None \<Rightarrow> Inl (KeyError ''market_bias'')
           | Some bias \<Rightarrow>
               Inr (Some \<lparr>cs_symbol = name, cs_price = price base_stock, cs_change = change base_stock,
                          cs_volume = volume base_stock, cs_stock_trend = stock_trend base_stock,
                          cs_market_bias = bias, screeners_found_in = screeners_found_in,
                          match_count = length screeners_found_in\<rparr>)))"

fun combine_all :: "(string \<times> stock list) list \<Rightarrow> string list \<Rightarrow> exn + combined_stock list" where
  "combine_all all_stocks_by_symbol [] = Inr []"
| "combine_all all_stocks_by_symbol (name # rest) =
     (case combined_entry all_stocks_by_symbol name of
        Inl e \<Rightarrow> Inl e
      | Inr None \<Rightarrow> combine_all all_stocks_by_symbol rest
      | Inr (Some combined_stock) \<Rightarrow>
          (case combine_all all_stocks_by_symbol rest of
             Inl e \<Rightarrow> Inl e
           | Inr entries \<Rightarrow> Inr (combined_stock # entries)))"

definition find_stocks_in_multiple_screeners :: "results_data \<Rightarrow> exn + combined_stock list" where
  "find_stocks_in_multiple_screeners results =
     (case dict_get (screeners results) ''price_crossover_200'' of
        Inl e \<Rightarrow> Inl e
      | Inr price_crossover \<Rightarrow>
     (case dict_get (screeners results) ''one_hour_rsi'' of
        Inl e \<Rightarrow> Inl e
      | Inr one_hour_rsi \<Rightarrow>
     (case dict_get (screeners results) ''five_min_rsi'' of
        Inl e \<Rightarrow> Inl e
      | Inr five_min_rsi \<Rightarrow>
          (let combined_symbols =
                 combined_symbols_of (symbol_set price_crossover) (symbol_set one_hour_rsi)
                   (symbol_set five_min_rsi);
               all_stocks_by_symbol = index_screeners (screeners results) []
           in combine_all all_stocks_by_symbol combined_symbols))))"

subsection \<open>The scan loop\<close>

text \<open>
  Everything one pass of the \<^verbatim>\<open>while True\<close> loop takes from outside: the moments read
  from the clock, the two probe pages, the browser, the write faults, and whether
  Ctrl-C arrives during the \<^verbatim>\<open>time.sleep\<close> that ends the pass.
\<close>

record cycle_env =
  gate_time :: datetime
  trend_time :: datetime
  update_time :: datetime
  bullish_probe :: probe_result
  bearish_probe :: probe_result
  trend_fault :: "io_fault option"
  driver_pages :: "string \<Rightarrow> scan_result"
  save_fault :: "io_fault option"
  interrupted :: bool

text \<open>Lines 469 to 488: one scan cycle, up to and including the save.\<close>

definition scan_cycle :: "cycle_env \<Rightarrow> files \<Rightarrow> (exn + unit) \<times> files" where
  "scan_cycle env fs =
     (case check_market_trend (bullish_probe env) (bearish_probe env) (trend_time env) (trend_fault env) fs of
        (Inl e, fs) \<Rightarrow> (Inl e, fs)
      | (Inr bias, fs) \<Rightarrow>
          (let results_data = load_current_results fs;
               results_data = results_data\<lparr>rd_market_bias := bias\<rparr>;
               results_data = results_data\<lparr>last_update := Some (update_time env)\<rparr>;
               results_data = run_screeners (driver_pages env) SCREENER_URLS bias results_data
           in case find_stocks_in_multiple_screeners results_data of
                Inl e \<Rightarrow> (Inl e, fs)
              | Inr combined \<Rightarrow>
                  save_scan_results (results_data\<lparr>combined_stocks := combined\<rparr>) (save_fault env) fs))"

text \<open>
  The \<^verbatim>\<open>while True\<close> loop, run on a finite script of passes: \<open>Running\<close> means the script
  is used up and the loop is still going, \<open>Raised e\<close> that an exception left the loop.
  The number counts the cycles that reached the end of the loop body.
\<close>

datatype loop_exit = Running | Raised exn

fun scan_loop :: "cycle_env list \<Rightarrow> files \<Rightarrow> nat \<Rightarrow> loop_exit \<times> files \<times> nat" where
  "scan_loop [] fs count = (Running, fs, count)"
| "scan_loop (env # rest) fs count =
     (if \<not> is_market_hours (gate_time env) then
        (if interrupted env then (Raised KeyboardInterrupt, fs, count)
         else scan_loop rest fs count)
      else
        (case scan_cycle env fs of
           (Inl e, fs') \<Rightarrow> (Raised e, fs', count)
         | (Inr u, fs') \<Rightarrow>
             if interrupted env then (Raised KeyboardInterrupt, fs', Suc count)
             else scan_loop rest fs' (Suc count)))"

text \<open>
  \<^verbatim>\<open>main\<close>: the \<^verbatim>\<open>try\<close> encloses the browser start and the whole loop. Of the log only
  the entries \<^verbatim>\<open>main\<close> itself writes after the loop are kept.
\<close>

datatype log_entry = Info string | Critical exn

record main_result =
  exit_state :: loop_exit
  final_files :: files
  cycles_completed :: nat
  main_log :: "log_entry list"
  browser_killed :: bool

definition main :: "bool \<Rightarrow> cycle_env list \<Rightarrow> files \<Rightarrow> main_result" where
  "main browser_starts script fs0 =
     (let fs = initialize_results_file fs0;
          (exit, fs', count) =
            (if browser_starts then scan_loop script fs 0
             else (Raised (OSError ''initialize_browser''), fs, 0));
          handler_log =
            (case exit of
               Running \<Rightarrow> []
             | Raised KeyboardInterrupt \<Rightarrow> [Info ''Scanner stopped by user'']
             | Raised e \<Rightarrow> [Critical e]);
          finally_log =
            (if browser_starts \<and> exit \<noteq> Running then [Info ''Browser closed''] else [])
      in \<lparr>exit_state = exit, final_files = fs', cycles_completed = count,
          main_log = handler_log @ finally_log,
          browser_killed = (browser_starts \<and> exit \<noteq> Running)\<rparr>)"

subsection \<open>Concrete inputs for the worked examples\<close>

definition weekday_noon :: datetime where
  "weekday_noon = \<lparr>ordinal = 739925, hour = 12, minute = 0, second = 0, microsecond = 0\<rparr>"

definition no_page :: probe_result where
  "no_page = \<lparr>probe_loaded = False, probe_scanned = False, probe_rows = None\<rparr>"

definition no_files :: files where
  "no_files = \<lparr>results_file = None, temp_file = None, market_trend_file = None\<rparr>"

definition row :: "string \<Rightarrow> string \<Rightarrow> stock" where
  "row name kind =
     \<lparr>symbol = name, price = Finite 100, change = Finite 1, volume = 5000,
      stock_trend = ''bullish'', screener_type = kind, market_bias = Some ''neutral''\<rparr>"

definition dead_browser :: "string \<Rightarrow> scan_result" where
  "dead_browser url = \<lparr>page_loaded = False, scan_ran = False, extracted = []\<rparr>"

definition one_hour_down :: "string \<Rightarrow> scan_result" where
  "one_hour_down url =
     (if url = ''https://chartink.com/screener/1-hour-rsi-2119''
      then \<lparr>page_loaded = True, scan_ran = False, extracted = []\<rparr>
      else if url = ''https://chartink.com/screener/price-corssover-200''
      then \<lparr>page_loaded = True, scan_ran = True, extracted = [row ''INFY'' ''price_crossover_200'']\<rparr>
      else \<lparr>page_loaded = True, scan_ran = True, extracted = []\<rparr>)"

definition clean_pass :: cycle_env where
  "clean_pass =
     \<lparr>gate_time = weekday_noon, trend_time = weekday_noon, update_time = weekday_noon,
      bullish_probe = no_page, bearish_probe = no_page, trend_fault = None,
      driver_pages = dead_browser, save_fault = None, interrupted = False\<rparr>"

definition failing_pass :: cycle_env where
  "failing_pass = clean_pass\<lparr>save_fault := Some ReplaceFails\<rparr>"

definition one_hour_down_pass :: cycle_env where
  "one_hour_down_pass = clean_pass\<lparr>driver_pages := one_hour_down\<rparr>"

definition scenario_a :: results_data where
  "scenario_a =
     \<lparr>last_update = None, rd_market_bias = ''neutral'',
      screeners =
        [(''price_crossover_200'', [row ''AAA'' ''price_crossover_200'', row ''BBB'' ''price_crossover_200'']),
         (''one_hour_rsi'', [row ''BBB'' ''one_hour_rsi'', row ''CCC'' ''one_hour_rsi'']),
         (''five_min_rsi'', [])],
      combined_stocks = []\<rparr>"

definition repeated_rows :: results_data where
  "repeated_rows =
     \<lparr>last_update = None, rd_market_bias = ''neutral'',
      screeners =
        [(''price_crossover_200'', [row ''AAA'' ''price_crossover_200'', row ''AAA'' ''price_crossover_200'']),
         (''one_hour_rsi'', [row ''AAA'' ''one_hour_rsi'']),
         (''five_min_rsi'', [])],
      combined_stocks = []\<rparr>"

definition entry :: "string \<Rightarrow> string list \<Rightarrow> combined_stock" where
  "entry name kinds =
     \<lparr>cs_symbol = name, cs_price = Finite 100, cs_change = Finite 1, cs_volume = 5000,
      cs_stock_trend = ''bullish'', cs_market_bias = ''neutral'',
      screeners_found_in = kinds, match_count = length kinds\<rparr>"

section \<open>The market-hours gate\<close>

lemma dt_le_start: "dt_le (now\<lparr>hour := 0, minute := 0, second := 0\<rparr>) now"
  by (auto simp add: dt_le_def dt_fields_def)

lemma dt_le_end:
  "dt_le now (now\<lparr>hour := 23, minute := 59, second := 0\<rparr>) \<longleftrightarrow>
     hour now < 23 \<or> (hour now = 23 \<and> (minute now < 59 \<or> (minute now = 59 \<and> second now = 0)))"
  by (auto simp add: dt_le_def dt_fields_def)

lemma is_market_hours_iff:
  "is_market_hours now \<longleftrightarrow>
     weekday now < 5 \<and>
     (hour now < 23 \<or> (hour now = 23 \<and> (minute now < 59 \<or> (minute now = 59 \<and> second now = 0))))"
  unfolding is_market_hours_def Let_def using dt_le_start [of now] dt_le_end [of now]
  by (auto simp add: not_le)

text \<open>
  Claim C10. The market-hours gate answers true exactly on a weekday (Monday to Friday,
  \<open>weekday\<close> below 5) at a time of day up to 23:59:00, whatever the microsecond. So it is
  true at every weekday moment at or before 23:59:00, neither 9:15 nor 15:30 playing a
  part, and false only on a weekend and in the rest of the last minute of the day.
\<close>

theorem is_market_hours_weekend_only_gate:
  "is_market_hours now \<longleftrightarrow>
     weekday now < 5 \<and>
     (hour now < 23 \<or> (hour now = 23 \<and> (minute now < 59 \<or> (minute now = 59 \<and> second now = 0))))"
  by (rule is_market_hours_iff)

theorem is_market_hours_weekend_only_gate_witness:
  "is_market_hours \<lparr>ordinal = 739925, hour = 20, minute = 45, second = 10, microsecond = 7\<rparr>
   \<and> is_market_hours \<lparr>ordinal = 739925, hour = 3, minute = 0, second = 0, microsecond = 0\<rparr>
   \<and> is_market_hours \<lparr>ordinal = 739925, hour = 23, minute = 59, second = 0, microsecond = 999999\<rparr>
   \<and> \<not> is_market_hours \<lparr>ordinal = 739925, hour = 23, minute = 59, second = 30, microsecond = 0\<rparr>
   \<and> \<not> is_market_hours \<lparr>ordinal = 739928, hour = 12, minute = 0, second = 0, microsecond = 0\<rparr>"
  using
    is_market_hours_weekend_only_gate
      [of "\<lparr>ordinal = 739925, hour = 20, minute = 45, second = 10, microsecond = 7\<rparr>"]
    is_market_hours_weekend_only_gate
      [of "\<lparr>ordinal = 739925, hour = 3, minute = 0, second = 0, microsecond = 0\<rparr>"]
    is_market_hours_weekend_only_gate
      [of "\<lparr>ordinal = 739925, hour = 23, minute = 59, second = 0, microsecond = 999999\<rparr>"]
    is_market_hours_weekend_only_gate
      [of "\<lparr>ordinal = 739925, hour = 23, minute = 59, second = 30, microsecond = 0\<rparr>"]
    is_market_hours_weekend_only_gate
      [of "\<lparr>ordinal = 739928, hour = 12, minute = 0, second = 0, microsecond = 0\<rparr>"]
  by (simp add: weekday_def)

lemma is_market_hours_weekend: "weekday now \<ge> 5 \<Longrightarrow> \<not> is_market_hours now"
  by (simp add: is_market_hours_iff)

lemma is_market_hours_weekday:
  "weekday now < 5 \<Longrightarrow>
   hour now < 23 \<or> (hour now = 23 \<and> (minute now < 59 \<or> (minute now = 59 \<and> second now = 0))) \<Longrightarrow>
   is_market_hours now"
  by (simp add: is_market_hours_iff)

section \<open>The trend classifier\<close>

text \<open>
  Claim C7, as the code has it. A numeric change is classified bullish when it is greater
  than zero and bearish otherwise: bearish at or below zero (zero included), and bearish
  also for the float NaN, which is not greater than zero; the infinities follow their
  sign. The result is unknown for \<^verbatim>\<open>None\<close> and for a text that \<^verbatim>\<open>float\<close> rejects; a
  text that \<^verbatim>\<open>float\<close> accepts is classified as the number it denotes.
\<close>

theorem determine_stock_trend_by_value:
  "determine_stock_trend py_float (PyInt i) = (if i > 0 then ''bullish'' else ''bearish'')
   \<and> determine_stock_trend py_float (PyFloat (Finite x)) = (if x > 0 then ''bullish'' else ''bearish'')
   \<and> determine_stock_trend py_float (PyInt 0) = ''bearish''
   \<and> determine_stock_trend py_float (PyFloat (Finite 0)) = ''bearish''
   \<and> determine_stock_trend py_float (PyFloat PosInf) = ''bullish''
   \<and> determine_stock_trend py_float (PyFloat NegInf) = ''bearish''
   \<and> determine_stock_trend py_float (PyFloat NaN) = ''bearish''
   \<and> determine_stock_trend py_float PyNone = ''unknown''
   \<and> determine_stock_trend py_float (PyStr s) =
         (case py_float s of
            Inl e \<Rightarrow> ''unknown''
          | Inr v \<Rightarrow> determine_stock_trend py_float (PyFloat v))"
  by (simp split: sum.split)

text \<open>
  The claim as written fails at the float NaN, the one value that is not a number among
  those \<^verbatim>\<open>extract_stock_data\<close> can pass (\<^verbatim>\<open>float('nan')\<close> parses): the result is
  \<^verbatim>\<open>"bearish"\<close>, not \<^verbatim>\<open>"unknown"\<close>.
\<close>

theorem determine_stock_trend_nan_bearish:
  "determine_stock_trend decimal_float (PyFloat NaN) = ''bearish''
   \<and> determine_stock_trend decimal_float (PyFloat NaN) \<noteq> ''unknown''"
  by simp

section \<open>Record validation\<close>

lemma convert_if_truthy_fails:
  "(\<exists>e. convert_if_truthy parse field = Inl e) \<longleftrightarrow>
     (\<exists>text e. field = Some text \<and> text \<noteq> [] \<and> parse text = Inl e)"
  by (auto simp add: convert_if_truthy_def split: option.splits sum.splits)

lemma validate_stock_data_True:
  "validate_stock_data py_float py_int name price_text change_text volume_text = Inr b \<Longrightarrow> b"
  by (auto simp add: validate_stock_data_def split: if_splits sum.splits)

lemma validate_stock_data_is_ValueError:
  "validate_stock_data py_float py_int name price_text change_text volume_text = Inl e \<Longrightarrow>
   \<exists>msg. e = ValueError msg"
  by (auto simp add: validate_stock_data_def split: if_splits sum.splits)

lemma validate_stock_data_messages:
  "length name < 2 \<Longrightarrow>
     validate_stock_data py_float py_int name price_text change_text volume_text
       = Inl (ValueError (''Invalid symbol: '' @ name))"
  "2 \<le> length name \<Longrightarrow> text \<noteq> [] \<Longrightarrow> py_float (replace_with_empty CHR '','' text) = Inl e \<Longrightarrow>
     validate_stock_data py_float py_int name (Some text) change_text volume_text
       = Inl (ValueError (''Invalid value format: '' @ e))"
  by (auto simp add: validate_stock_data_def convert_if_truthy_def)

text \<open>
  Claim C8, as the code has it. The validator raises \<^verbatim>\<open>ValueError\<close> exactly when the symbol
  has fewer than two characters, or a price text that is present and not empty fails to
  parse once its commas are dropped, or such a change text fails to parse once its percent
  signs and commas are dropped, or such a volume text fails to parse once its commas are
  dropped. In every other case it returns \<^verbatim>\<open>True\<close>: a missing or empty text is not parsed
  at all, and the parsed numbers are not returned.
\<close>

theorem validate_stock_data_result:
  "((\<exists>msg. validate_stock_data py_float py_int name price_text change_text volume_text
            = Inl (ValueError msg))
     \<longleftrightarrow>
       (length name < 2
        \<or> (\<exists>text e. price_text = Some text \<and> text \<noteq> [] \<and>
              py_float (replace_with_empty CHR '','' text) = Inl e)
        \<or> (\<exists>text e. change_text = Some text \<and> text \<noteq> [] \<and>
              py_float (replace_with_empty CHR '','' (replace_with_empty CHR ''%'' text)) = Inl e)
        \<or> (\<exists>text e. volume_text = Some text \<and> text \<noteq> [] \<and>
              py_int (replace_with_empty CHR '','' text) = Inl e)))
   \<and> ((validate_stock_data py_float py_int name price_text change_text volume_text = Inr True)
     \<longleftrightarrow>
       \<not> (length name < 2
        \<or> (\<exists>text e. price_text = Some text \<and> text \<noteq> [] \<and>
              py_float (replace_with_empty CHR '','' text) = Inl e)
        \<or> (\<exists>text e. change_text = Some text \<and> text \<noteq> [] \<and>
              py_float (replace_with_empty CHR '','' (replace_with_empty CHR ''%'' text)) = Inl e)
        \<or> (\<exists>text e. volume_text = Some text \<and> text \<noteq> [] \<and>
              py_int (replace_with_empty CHR '','' text) = Inl e)))"
proof -
  let ?p = "convert_if_truthy (\<lambda>text. py_float (replace_with_empty CHR '','' text)) price_text"
  let ?c = "convert_if_truthy
              (\<lambda>text. py_float (replace_with_empty CHR '','' (replace_with_empty CHR ''%'' text)))
              change_text"
  let ?v = "convert_if_truthy (\<lambda>text. py_int (replace_with_empty CHR '','' text)) volume_text"
  let ?bad = "length name < 2 \<or> (\<exists>e. ?p = Inl e) \<or> (\<exists>e. ?c = Inl e) \<or> (\<exists>e. ?v = Inl e)"
  have raises: "(\<exists>msg. validate_stock_data py_float py_int name price_text change_text volume_text
            = Inl (ValueError msg)) \<longleftrightarrow> ?bad"
    by (auto simp add: validate_stock_data_def split: sum.splits)
  have returns: "(validate_stock_data py_float py_int name price_text change_text volume_text = Inr True)
      \<longleftrightarrow> \<not> ?bad"
    by (auto simp add: validate_stock_data_def split: sum.splits)
  show ?thesis
    using raises returns unfolding convert_if_truthy_fails by blast
qed

lemma decimal_examples:
  "decimal_float (replace_with_empty CHR '','' ''1,234.5'') = Inr (Finite 1234.5)"
  "decimal_float (replace_with_empty CHR '','' (replace_with_empty CHR ''%'' ''-2.5%'')) = Inr (Finite (- 2.5))"
  "decimal_int (replace_with_empty CHR '','' ''10,000'') = Inr 10000"
  "decimal_float (replace_with_empty CHR '','' ''12%'') = Inl (''could not convert string to float: '' @ py_repr ''12%'')"
  "decimal_float (replace_with_empty CHR '','' ''12'') = Inr (Finite 12)"
  "decimal_float (replace_with_empty CHR '','' []) = Inl (''could not convert string to float: '' @ py_repr [])"
  by (simp_all add: replace_with_empty_def decimal_float_def decimal_int_def split_sign_def digit_of_def)

theorem validate_stock_data_result_witness:
  "validate_stock_data decimal_float decimal_int ''TCS'' (Some ''1,234.5'') (Some ''-2.5%'') (Some ''10,000'')
     = Inr True
   \<and> (\<exists>msg. validate_stock_data decimal_float decimal_int ''TCS'' (Some ''12%'') None None
              = Inl (ValueError msg))
   \<and> (\<exists>msg. validate_stock_data decimal_float decimal_int ''T'' (Some ''12'') None None
              = Inl (ValueError msg))"
  using validate_stock_data_result [of decimal_float decimal_int "''TCS''" "Some ''1,234.5''" "Some ''-2.5%''" "Some ''10,000''"]
    validate_stock_data_result [of decimal_float decimal_int "''TCS''" "Some ''12%''" None None]
    validate_stock_data_result [of decimal_float decimal_int "''T''" "Some ''12''" None None]
  by (simp add: decimal_examples)

lemma validate_stock_data_percent_in_price:
  "validate_stock_data decimal_float decimal_int ''TCS'' (Some ''12%'') None None
     = Inl (ValueError (''Invalid value format: could not convert string to float: '' @ py_repr ''12%''))"
  using validate_stock_data_messages(2) [of "''TCS''" "''12%''" decimal_float _ decimal_int None None]
  by (simp add: decimal_examples)

text \<open>
  The claim as written fails on an empty price text: the text is supplied, \<^verbatim>\<open>float('')\<close>
  raises, and the validator still returns \<^verbatim>\<open>True\<close>.
\<close>

theorem validate_stock_data_empty_text_passes:
  "decimal_float (replace_with_empty CHR '','' [])
     = Inl (''could not convert string to float: '' @ py_repr [])
   \<and> validate_stock_data decimal_float decimal_int ''AB'' (Some []) None None = Inr True"
  by (simp add: decimal_examples validate_stock_data_def convert_if_truthy_def)

section \<open>The alignment filter\<close>

lemma filter_returned_list:
  "snd (filter_stocks_by_market_trend stocks bias) =
     map (\<lambda>s. s\<lparr>market_bias := Some bias\<rparr>)
       (filter (\<lambda>s. (bias = ''bullish'' \<and> stock_trend s = ''bullish'')
                   \<or> (bias = ''bearish'' \<and> stock_trend s = ''bearish'')
                   \<or> bias = ''neutral'') stocks)"
  by (induction stocks) (auto simp add: Let_def split: prod.splits)

lemma filter_input_after:
  "fst (filter_stocks_by_market_trend stocks bias) = map (\<lambda>s. s\<lparr>market_bias := Some bias\<rparr>) stocks"
  by (induction stocks) (auto simp add: Let_def split: prod.splits)

text \<open>
  Claim C6. Under a bullish bias the filter returns exactly the stocks whose trend is
  bullish, under a bearish bias exactly those whose trend is bearish, under a neutral bias
  the whole input list (the very dicts of the input, in order), and under the bias
  \<^verbatim>\<open>"unknown"\<close> the empty list. Each stock carries the bias it was evaluated under.
\<close>

theorem filter_stocks_by_market_trend_by_bias:
  "snd (filter_stocks_by_market_trend stocks ''bullish'') =
     map (\<lambda>s. s\<lparr>market_bias := Some ''bullish''\<rparr>) (filter (\<lambda>s. stock_trend s = ''bullish'') stocks)
   \<and> snd (filter_stocks_by_market_trend stocks ''bearish'') =
     map (\<lambda>s. s\<lparr>market_bias := Some ''bearish''\<rparr>) (filter (\<lambda>s. stock_trend s = ''bearish'') stocks)
   \<and> snd (filter_stocks_by_market_trend stocks ''neutral'') =
     map (\<lambda>s. s\<lparr>market_bias := Some ''neutral''\<rparr>) stocks
   \<and> snd (filter_stocks_by_market_trend stocks ''neutral'') =
     fst (filter_stocks_by_market_trend stocks ''neutral'')
   \<and> map symbol (snd (filter_stocks_by_market_trend stocks ''neutral'')) = map symbol stocks
   \<and> snd (filter_stocks_by_market_trend stocks ''unknown'') = []"
  by (simp add: filter_returned_list filter_input_after comp_def)

lemma filter_other_bias_empty:
  "bias \<noteq> ''bullish'' \<Longrightarrow> bias \<noteq> ''bearish'' \<Longrightarrow> bias \<noteq> ''neutral'' \<Longrightarrow>
   snd (filter_stocks_by_market_trend stocks bias) = []"
  by (simp add: filter_returned_list)

lemma filter_stamps:
  "s \<in> set (snd (filter_stocks_by_market_trend stocks bias)) \<Longrightarrow> market_bias s = Some bias"
  by (auto simp add: filter_returned_list)

lemma filter_keeps_fields:
  "s \<in> set (snd (filter_stocks_by_market_trend stocks bias)) \<Longrightarrow>
   \<exists>t \<in> set stocks. symbol s = symbol t \<and> screener_type s = screener_type t"
  by (auto simp add: filter_returned_list)

section \<open>Cross-screener aggregation\<close>

lemma get_or_empty_update:
  "get_or_empty (dict_set d k v) k' = (if k' = k then v else get_or_empty d k')"
  by (simp add: get_or_empty_def dict_set_def update_conv')

lemma index_stocks_lookup:
  "get_or_empty (index_stocks stocks idx) k = get_or_empty idx k @ filter (\<lambda>s. symbol s = k) stocks"
proof (induction stocks arbitrary: idx)
  case Nil
  then show ?case by simp
next
  case (Cons stock rest)
  show ?case
    by (auto simp add: Cons.IH Let_def get_or_empty_update)
       (auto simp add: get_or_empty_def)
qed

lemma index_screeners_lookup:
  "get_or_empty (index_screeners d idx) k =
     get_or_empty idx k @ filter (\<lambda>s. symbol s = k) (concat (map snd d))"
  by (induction d arbitrary: idx) (auto simp add: index_stocks_lookup)

lemma set_combined_symbols_of:
  "set (combined_symbols_of P Q R) =
     (set P \<inter> set Q) \<union> (set P \<inter> set R) \<union> (set Q \<inter> set R) \<union> (set P \<inter> set Q \<inter> set R)"
  unfolding combined_symbols_of_def Let_def set_and_def set_minus_def set_update_def
  by (auto simp add: filter_empty_conv)

lemma set_symbol_set: "set (symbol_set stocks) = symbol ` set stocks"
  by (simp add: symbol_set_def)

lemma combine_all_entries:
  "combine_all idx names = Inr out \<Longrightarrow>
   map cs_symbol out = filter (\<lambda>k. get_or_empty idx k \<noteq> []) names
   \<and> (\<forall>c \<in> set out. screeners_found_in c = map screener_type (get_or_empty idx (cs_symbol c))
                     \<and> match_count c = length (screeners_found_in c))"
proof (induction names arbitrary: out)
  case Nil
  then show ?case by simp
next
  case (Cons k names)
  then show ?case
    by (auto simp add: combined_entry_def Let_def split: sum.splits option.splits list.splits)
qed

lemma combine_all_total:
  "(\<forall>k \<in> set names. \<forall>s \<in> set (get_or_empty idx k). market_bias s \<noteq> None) \<Longrightarrow>
   \<exists>out. combine_all idx names = Inr out"
proof (induction names)
  case Nil
  then show ?case by simp
next
  case (Cons k names)
  then obtain out where "combine_all idx names = Inr out" by auto
  moreover have "\<forall>s \<in> set (get_or_empty idx k). market_bias s \<noteq> None" using Cons.prems by simp
  ultimately show ?case
    by (auto simp add: combined_entry_def Let_def split: sum.splits option.splits list.splits)
qed

lemma count_two_lists:
  "(k1, a) \<in> set d \<Longrightarrow> (k2, b) \<in> set d \<Longrightarrow> k1 \<noteq> k2 \<Longrightarrow>
   length (filter P a) + length (filter P b) \<le> length (filter P (concat (map snd d)))"
proof (induction d)
  case Nil
  then show ?case by simp
next
  case (Cons p d)
  have one: "\<And>k l. (k, l) \<in> set d \<Longrightarrow> length (filter P l) \<le> length (filter P (concat (map snd d)))"
  proof -
    fix k l assume "(k, l) \<in> set d"
    then show "length (filter P l) \<le> length (filter P (concat (map snd d)))"
      by (induction d) auto
  qed
  from Cons show ?case
    by (auto dest: one)
qed

lemma member_count: "k \<in> symbol ` set l \<Longrightarrow> 1 \<le> length (filter (\<lambda>s. symbol s = k) l)"
  by (induction l) auto

lemma found_in_distinct:
  assumes "\<forall>(key, l) \<in> set d. distinct (map symbol l) \<and> (\<forall>s \<in> set l. screener_type s = key)"
    and "distinct (map fst d)"
  shows "distinct (map screener_type (filter (\<lambda>s. symbol s = k) (concat (map snd d))))
       \<and> set (map screener_type (filter (\<lambda>s. symbol s = k) (concat (map snd d)))) \<subseteq> fst ` set d"
  using assms
proof (induction d)
  case Nil
  then show ?case by simp
next
  case (Cons p d)
  obtain key l where p: "p = (key, l)" by (cases p)
  have dl: "distinct (map symbol l)" and ty: "\<forall>s \<in> set l. screener_type s = key"
    using Cons.prems(1) by (auto simp add: p)
  have here: "distinct (map screener_type (filter (\<lambda>s. symbol s = k) l))"
    using dl
  proof (induction l)
    case Nil
    then show ?case by simp
  next
    case (Cons s l)
    then show ?case by (auto simp add: image_iff)
  qed
  have here_set: "set (map screener_type (filter (\<lambda>s. symbol s = k) l)) \<subseteq> {key}"
    using ty by auto
  have ih: "distinct (map screener_type (filter (\<lambda>s. symbol s = k) (concat (map snd d))))
       \<and> set (map screener_type (filter (\<lambda>s. symbol s = k) (concat (map snd d)))) \<subseteq> fst ` set d"
    using Cons.IH Cons.prems by auto
  have knew: "key \<notin> fst ` set d" using Cons.prems(2) by (simp add: p)
  let ?A = "map screener_type (filter (\<lambda>s. symbol s = k) l)"
  let ?B = "map screener_type (filter (\<lambda>s. symbol s = k) (concat (map snd d)))"
  have split: "map screener_type (filter (\<lambda>s. symbol s = k) (concat (map snd (p # d)))) = ?A @ ?B"
    by (simp add: p)
  have disj: "set ?A \<inter> set ?B = {}"
    using here_set ih knew by blast
  have "distinct (?A @ ?B)"
    using here ih disj by simp
  moreover have "set (?A @ ?B) \<subseteq> fst ` set (p # d)"
  proof -
    have sB: "set ?B \<subseteq> fst ` set d" using ih by blast
    have u: "set (?A @ ?B) = set ?A \<union> set ?B" by (rule set_append)
    have f: "fst ` set (p # d) = insert key (fst ` set d)" by (simp add: p)
    show ?thesis unfolding u f using here_set sB by blast
  qed
  ultimately show ?case unfolding split by blast
qed


lemma dict_get_member: "dict_get d k = Inr v \<Longrightarrow> (k, v) \<in> set d"
  by (auto simp add: dict_get_def split: option.splits dest: map_of_SomeD)

lemma find_stocks_Inr:
  assumes "find_stocks_in_multiple_screeners rd = Inr out"
  obtains pc oh fm where
    "dict_get (screeners rd) ''price_crossover_200'' = Inr pc"
    "dict_get (screeners rd) ''one_hour_rsi'' = Inr oh"
    "dict_get (screeners rd) ''five_min_rsi'' = Inr fm"
    "combine_all (index_screeners (screeners rd) [])
        (combined_symbols_of (symbol_set pc) (symbol_set oh) (symbol_set fm)) = Inr out"
  using assms
  by (auto simp add: find_stocks_in_multiple_screeners_def Let_def split: sum.splits)

lemma find_stocks_keys:
  assumes "dict_get (screeners rd) ''price_crossover_200'' = Inr pc"
    "dict_get (screeners rd) ''one_hour_rsi'' = Inr oh"
    "dict_get (screeners rd) ''five_min_rsi'' = Inr fm"
  shows "find_stocks_in_multiple_screeners rd =
           combine_all (index_screeners (screeners rd) [])
             (combined_symbols_of (symbol_set pc) (symbol_set oh) (symbol_set fm))"
  using assms by (simp add: find_stocks_in_multiple_screeners_def Let_def)

lemma index_all_lookup:
  "get_or_empty (index_screeners d []) k = filter (\<lambda>s. symbol s = k) (concat (map snd d))"
proof -
  have e: "get_or_empty ([] :: (string \<times> stock list) list) k = []"
    by (simp add: get_or_empty_def)
  show ?thesis unfolding index_screeners_lookup e by simp
qed

lemma in_two_sources_count:
  assumes "(''price_crossover_200'', pc) \<in> set d" "(''one_hour_rsi'', oh) \<in> set d"
    "(''five_min_rsi'', fm) \<in> set d"
    and "k \<in> set (combined_symbols_of (symbol_set pc) (symbol_set oh) (symbol_set fm))"
  shows "2 \<le> length (filter (\<lambda>s. symbol s = k) (concat (map snd d)))"
proof -
  let ?n = "\<lambda>l. length (filter (\<lambda>s. symbol s = k) l)"
  have po: "?n pc + ?n oh \<le> ?n (concat (map snd d))"
    using count_two_lists [OF assms(1) assms(2)] by simp
  have pf: "?n pc + ?n fm \<le> ?n (concat (map snd d))"
    using count_two_lists [OF assms(1) assms(3)] by simp
  have "of": "?n oh + ?n fm \<le> ?n (concat (map snd d))"
    using count_two_lists [OF assms(2) assms(3)] by simp
  from assms(4) consider
      "k \<in> symbol ` set pc" "k \<in> symbol ` set oh"
    | "k \<in> symbol ` set pc" "k \<in> symbol ` set fm"
    | "k \<in> symbol ` set oh" "k \<in> symbol ` set fm"
    unfolding set_combined_symbols_of set_symbol_set by blast
  then show ?thesis
  proof cases
    case 1
    then show ?thesis using member_count [of k pc] member_count [of k oh] po by linarith
  next
    case 2
    then show ?thesis using member_count [of k pc] member_count [of k fm] pf by linarith
  next
    case 3
    then show ?thesis using member_count [of k oh] member_count [of k fm] "of" by linarith
  qed
qed

lemma scenario_a_names:
  "combined_symbols_of (symbol_set [row ''AAA'' ''price_crossover_200'', row ''BBB'' ''price_crossover_200''])
     (symbol_set [row ''BBB'' ''one_hour_rsi'', row ''CCC'' ''one_hour_rsi'']) (symbol_set []) = [''BBB'']"
  by (simp add: combined_symbols_of_def symbol_set_def row_def set_and_def set_minus_def set_update_def)

lemma scenario_a_keys:
  "dict_get (screeners scenario_a) ''price_crossover_200''
     = Inr [row ''AAA'' ''price_crossover_200'', row ''BBB'' ''price_crossover_200'']"
  "dict_get (screeners scenario_a) ''one_hour_rsi''
     = Inr [row ''BBB'' ''one_hour_rsi'', row ''CCC'' ''one_hour_rsi'']"
  "dict_get (screeners scenario_a) ''five_min_rsi'' = Inr []"
  by (simp_all add: scenario_a_def dict_get_def)

lemma scenario_a_result:
  "find_stocks_in_multiple_screeners scenario_a = Inr [entry ''BBB'' [''price_crossover_200'', ''one_hour_rsi'']]"
proof -
  have "find_stocks_in_multiple_screeners scenario_a =
      combine_all (index_screeners (screeners scenario_a) []) [''BBB'']"
    unfolding find_stocks_keys [OF scenario_a_keys] scenario_a_names ..
  also have "\<dots> = Inr [entry ''BBB'' [''price_crossover_200'', ''one_hour_rsi'']]"
    unfolding combine_all.simps combined_entry_def index_all_lookup
    by (simp add: scenario_a_def row_def entry_def)
  finally show ?thesis .
qed

lemma repeated_rows_names:
  "combined_symbols_of (symbol_set [row ''AAA'' ''price_crossover_200'', row ''AAA'' ''price_crossover_200''])
     (symbol_set [row ''AAA'' ''one_hour_rsi'']) (symbol_set []) = [''AAA'']"
  by (simp add: combined_symbols_of_def symbol_set_def row_def set_and_def set_minus_def set_update_def)

lemma repeated_rows_keys:
  "dict_get (screeners repeated_rows) ''price_crossover_200''
     = Inr [row ''AAA'' ''price_crossover_200'', row ''AAA'' ''price_crossover_200'']"
  "dict_get (screeners repeated_rows) ''one_hour_rsi'' = Inr [row ''AAA'' ''one_hour_rsi'']"
  "dict_get (screeners repeated_rows) ''five_min_rsi'' = Inr []"
  by (simp_all add: repeated_rows_def dict_get_def)

lemma repeated_rows_result:
  "find_stocks_in_multiple_screeners repeated_rows =
     Inr [entry ''AAA'' [''price_crossover_200'', ''price_crossover_200'', ''one_hour_rsi'']]"
proof -
  have "find_stocks_in_multiple_screeners repeated_rows =
      combine_all (index_screeners (screeners repeated_rows) []) [''AAA'']"
    unfolding find_stocks_keys [OF repeated_rows_keys] repeated_rows_names ..
  also have "\<dots> = Inr [entry ''AAA'' [''price_crossover_200'', ''price_crossover_200'', ''one_hour_rsi'']]"
    unfolding combine_all.simps combined_entry_def index_all_lookup
    by (simp add: repeated_rows_def row_def entry_def)
  finally show ?thesis .
qed

text \<open>
  Claim C3, as the code has it. Every combined stock the aggregator returns has a match
  count equal to the length of its screener list, and that count is at least 2. The
  screener list holds one name per stock dict carrying the symbol: it is free of
  duplicates when no screener lists a symbol twice and every stock is tagged with the
  screener whose list holds it (the screener names being the distinct keys of a dict).
\<close>

theorem combined_stock_match_count:
  assumes "find_stocks_in_multiple_screeners rd = Inr out" and "c \<in> set out"
  shows "match_count c = length (screeners_found_in c) \<and> 2 \<le> match_count c
       \<and> ((\<forall>(key, l) \<in> set (screeners rd).
               distinct (map symbol l) \<and> (\<forall>s \<in> set l. screener_type s = key))
            \<and> distinct (map fst (screeners rd))
          \<longrightarrow> distinct (screeners_found_in c))"
proof -
  from assms(1) obtain pc oh fm where
    k1: "dict_get (screeners rd) ''price_crossover_200'' = Inr pc" and
    k2: "dict_get (screeners rd) ''one_hour_rsi'' = Inr oh" and
    k3: "dict_get (screeners rd) ''five_min_rsi'' = Inr fm" and
    comb: "combine_all (index_screeners (screeners rd) [])
        (combined_symbols_of (symbol_set pc) (symbol_set oh) (symbol_set fm)) = Inr out"
    by (rule find_stocks_Inr)
  let ?names = "combined_symbols_of (symbol_set pc) (symbol_set oh) (symbol_set fm)"
  from combine_all_entries [OF comb] have
    names: "map cs_symbol out = filter (\<lambda>k. get_or_empty (index_screeners (screeners rd) []) k \<noteq> []) ?names"
    and ent: "\<forall>c \<in> set out. screeners_found_in c =
                 map screener_type (get_or_empty (index_screeners (screeners rd) []) (cs_symbol c))
               \<and> match_count c = length (screeners_found_in c)"
    by blast+
  have found: "screeners_found_in c =
      map screener_type (filter (\<lambda>s. symbol s = cs_symbol c) (concat (map snd (screeners rd))))"
    using ent assms(2) by (simp add: index_all_lookup)
  have len: "match_count c = length (screeners_found_in c)"
    using ent assms(2) by blast
  have "cs_symbol c \<in> set (map cs_symbol out)" using assms(2) by simp
  then have mem: "cs_symbol c \<in> set ?names" unfolding names by simp
  have two: "2 \<le> length (filter (\<lambda>s. symbol s = cs_symbol c) (concat (map snd (screeners rd))))"
    by (rule in_two_sources_count [OF dict_get_member [OF k1] dict_get_member [OF k2]
          dict_get_member [OF k3] mem])
  have dist: "(\<forall>(key, l) \<in> set (screeners rd).
               distinct (map symbol l) \<and> (\<forall>s \<in> set l. screener_type s = key))
            \<and> distinct (map fst (screeners rd))
          \<longrightarrow> distinct (screeners_found_in c)"
    unfolding found using found_in_distinct by blast
  from len two dist show ?thesis by (simp add: found)
qed

theorem combined_stock_match_count_witness:
  "find_stocks_in_multiple_screeners scenario_a
     = Inr [entry ''BBB'' [''price_crossover_200'', ''one_hour_rsi'']]
   \<and> match_count (entry ''BBB'' [''price_crossover_200'', ''one_hour_rsi'']) = 2
   \<and> distinct (screeners_found_in (entry ''BBB'' [''price_crossover_200'', ''one_hour_rsi'']))"
proof -
  let ?e = "entry ''BBB'' [''price_crossover_200'', ''one_hour_rsi'']"
  have wf: "(\<forall>(key, l) \<in> set (screeners scenario_a).
               distinct (map symbol l) \<and> (\<forall>s \<in> set l. screener_type s = key))
            \<and> distinct (map fst (screeners scenario_a))"
    by (simp add: scenario_a_def row_def)
  have mem: "?e \<in> set [?e]" by simp
  from combined_stock_match_count [OF scenario_a_result mem] wf
  have "match_count ?e = length (screeners_found_in ?e) \<and> 2 \<le> match_count ?e
        \<and> distinct (screeners_found_in ?e)"
    by blast
  then show ?thesis using scenario_a_result by (simp add: entry_def)
qed

text \<open>
  The claim as written fails when a symbol repeats within one screener's list: the
  screener is then listed once per occurrence, and counted as often.
\<close>

theorem repeated_symbol_duplicates_screener:
  "find_stocks_in_multiple_screeners repeated_rows
     = Inr [entry ''AAA'' [''price_crossover_200'', ''price_crossover_200'', ''one_hour_rsi'']]
   \<and> \<not> distinct (screeners_found_in
          (entry ''AAA'' [''price_crossover_200'', ''price_crossover_200'', ''one_hour_rsi'']))
   \<and> match_count (entry ''AAA'' [''price_crossover_200'', ''price_crossover_200'', ''one_hour_rsi'']) = 3"
  by (simp add: repeated_rows_result entry_def)

text \<open>
  Claim C4. When the three screener keys are present and every stock carries its market
  bias (as every stock that went through the filter does), the aggregator returns without
  error, whatever the lists hold (empty lists included), and the symbols of its output
  are exactly the symbols found in at least two of the three screeners' symbol sets: the
  union of the pairwise and the triple intersections.
\<close>

theorem combined_symbols_exact:
  assumes "dict_get (screeners rd) ''price_crossover_200'' = Inr pc"
    and "dict_get (screeners rd) ''one_hour_rsi'' = Inr oh"
    and "dict_get (screeners rd) ''five_min_rsi'' = Inr fm"
    and "\<forall>(key, l) \<in> set (screeners rd). \<forall>s \<in> set l. market_bias s \<noteq> None"
  shows "\<exists>out. find_stocks_in_multiple_screeners rd = Inr out
          \<and> set (map cs_symbol out) =
              (symbol ` set pc \<inter> symbol ` set oh) \<union> (symbol ` set pc \<inter> symbol ` set fm)
              \<union> (symbol ` set oh \<inter> symbol ` set fm)
              \<union> (symbol ` set pc \<inter> symbol ` set oh \<inter> symbol ` set fm)"
proof -
  let ?idx = "index_screeners (screeners rd) []"
  let ?names = "combined_symbols_of (symbol_set pc) (symbol_set oh) (symbol_set fm)"
  have stamped: "\<forall>k \<in> set ?names. \<forall>s \<in> set (get_or_empty ?idx k). market_bias s \<noteq> None"
    using assms(4) by (auto simp add: index_all_lookup)
  from combine_all_total [OF stamped] obtain out where out: "combine_all ?idx ?names = Inr out"
    by blast
  have f: "find_stocks_in_multiple_screeners rd = Inr out"
    using find_stocks_keys [OF assms(1-3)] out by simp
  have nonempty: "\<forall>k \<in> set ?names. get_or_empty ?idx k \<noteq> []"
  proof
    fix k assume "k \<in> set ?names"
    then have "2 \<le> length (get_or_empty ?idx k)"
      unfolding index_all_lookup
      by (rule in_two_sources_count [OF dict_get_member [OF assms(1)] dict_get_member [OF assms(2)]
          dict_get_member [OF assms(3)]])
    then show "get_or_empty ?idx k \<noteq> []" by auto
  qed
  have "map cs_symbol out = filter (\<lambda>k. get_or_empty ?idx k \<noteq> []) ?names"
    using combine_all_entries [OF out] by blast
  also have "\<dots> = ?names" using nonempty by (simp add: filter_id_conv)
  finally have "set (map cs_symbol out) = set ?names" by simp
  then show ?thesis using f
    unfolding set_combined_symbols_of set_symbol_set by blast
qed

theorem combined_symbols_exact_witness:
  "\<exists>out. find_stocks_in_multiple_screeners scenario_a = Inr out \<and> set (map cs_symbol out) = {''BBB''}"
proof -
  have stamped: "\<forall>(key, l) \<in> set (screeners scenario_a). \<forall>s \<in> set l. market_bias s \<noteq> None"
    by (simp add: scenario_a_def row_def)
  show ?thesis
    using combined_symbols_exact [OF scenario_a_keys stamped]
    by (simp add: row_def)
qed

section \<open>Market bias\<close>

lemma check_market_trend_never_unknown:
  "fst (check_market_trend bull bear t fault fs) \<noteq> Inr ''unknown''"
  by (auto simp add: check_market_trend_def Let_def split: option.splits io_fault.splits)

lemma check_market_trend_unloaded:
  "\<not> probe_loaded bull \<Longrightarrow> \<not> probe_loaded bear \<Longrightarrow>
   fst (check_market_trend bull bear t None fs) = Inr ''neutral''"
  by (simp add: check_market_trend_def Let_def probe_indices_def key_count_def key_indices_def)

text \<open>
  Claim C1 says that the bias is \<^verbatim>\<open>"unknown"\<close> when both probe pages fail to load. The
  function returns \<^verbatim>\<open>"neutral"\<close> there: both index lists stay empty, both counts are
  zero, and the last branch of the comparison overwrites the initial \<^verbatim>\<open>"unknown"\<close>.
\<close>

theorem check_market_trend_probes_fail:
  "fst (check_market_trend no_page no_page weekday_noon None no_files) = Inr ''neutral''"
  by (simp add: check_market_trend_unloaded no_page_def)

section \<open>Saving and loading the results\<close>

lemma save_try_body_cases:
  "save_try_body data fault fs =
     (case fault of
        Some OpenFails \<Rightarrow> (Inl (OSError ''combined_scan_results.json.tmp''), fs)
      | Some DumpFails \<Rightarrow>
          (Inl (OSError ''combined_scan_results.json.tmp''), fs\<lparr>temp_file := Some Partial\<rparr>)
      | Some ReplaceFails \<Rightarrow>
          (Inl (OSError ''combined_scan_results.json''), fs\<lparr>temp_file := Some (Dumped data)\<rparr>)
      | None \<Rightarrow> (Inr (), fs\<lparr>results_file := Some (Dumped data), temp_file := None\<rparr>))"
  by (simp add: save_try_body_def open_temp_def dump_temp_def os_replace_def
      split: option.splits io_fault.splits)

lemma save_fst:
  "fst (save_scan_results data fault fs) =
     (case fault of
        None \<Rightarrow> Inr ()
      | Some OpenFails \<Rightarrow> Inl (OSError ''combined_scan_results.json.tmp'')
      | Some DumpFails \<Rightarrow> Inl (OSError ''combined_scan_results.json.tmp'')
      | Some ReplaceFails \<Rightarrow> Inl (OSError ''combined_scan_results.json''))"
  by (simp add: save_scan_results_def save_try_body_cases split: option.splits io_fault.splits)

lemma save_steps_keep_results_file:
  "results_file (snd (open_temp fault fs)) = results_file fs
   \<and> results_file (snd (dump_temp data fault fs)) = results_file fs
   \<and> (fault = Some ReplaceFails \<longrightarrow> snd (os_replace fault fs) = fs)"
  by (simp add: open_temp_def dump_temp_def os_replace_def)

lemma save_results_file_old_or_new:
  "results_file (snd (save_scan_results data fault fs)) = results_file fs
   \<or> results_file (snd (save_scan_results data fault fs)) = Some (Dumped data)"
  by (simp add: save_scan_results_def save_try_body_cases split: option.splits io_fault.splits)

text \<open>
  Claim C5. The save writes the data to the temporary file and then replaces the results
  file by it in one step. Whichever step raises (opening, dumping or replacing), the call
  ends in an exception, the temporary file is gone, the results file is what it was, and
  loading gives what it gave before: the previously saved state when there was one.
  Without a failure the results file holds the complete new state and loading returns it.
\<close>

theorem save_scan_results_atomic:
  "(\<exists>e. fst (save_scan_results data (Some f) fs) = Inl e \<and> is_Exception e)
   \<and> temp_file (snd (save_scan_results data (Some f) fs)) = None
   \<and> results_file (snd (save_scan_results data (Some f) fs)) = results_file fs
   \<and> load_current_results (snd (save_scan_results data (Some f) fs)) = load_current_results fs
   \<and> load_current_results (snd (save_scan_results data (Some f) (fs\<lparr>results_file := Some (Dumped previous)\<rparr>)))
       = previous
   \<and> fst (save_scan_results data None fs) = Inr ()
   \<and> results_file (snd (save_scan_results data None fs)) = Some (Dumped data)
   \<and> temp_file (snd (save_scan_results data None fs)) = None
   \<and> load_current_results (snd (save_scan_results data None fs)) = data"
  by (cases f) (simp_all add: save_scan_results_def save_try_body_cases load_current_results_def)

section \<open>One scan cycle\<close>

lemma run_screener_entry:
  "map_of (screeners (run_screener driver kind url bias rd)) k =
     (if k = kind \<and> page_loaded (driver url) \<and> scan_ran (driver url)
      then Some (snd (filter_stocks_by_market_trend (extracted (driver url)) bias))
      else map_of (screeners rd) k)"
  by (auto simp add: run_screener_def Let_def dict_set_def update_conv')

lemma run_screeners_entry:
  "distinct (map fst urls) \<Longrightarrow>
   map_of (screeners (run_screeners driver urls bias rd)) k =
     (case map_of urls k of
        None \<Rightarrow> map_of (screeners rd) k
      | Some url \<Rightarrow>
          if page_loaded (driver url) \<and> scan_ran (driver url)
          then Some (snd (filter_stocks_by_market_trend (extracted (driver url)) bias))
          else map_of (screeners rd) k)"
proof (induction urls arbitrary: rd)
  case Nil
  then show ?case by simp
next
  case (Cons p urls)
  obtain kind url where p: "p = (kind, url)" by (cases p)
  from Cons.prems have d: "distinct (map fst urls)" and notin: "kind \<notin> fst ` set urls"
    by (auto simp add: p)
  show ?case
  proof (cases "k = kind")
    case True
    with notin have "map_of urls k = None" by (simp add: map_of_eq_None_iff)
    then show ?thesis using Cons.IH [OF d] True by (simp add: p run_screener_entry)
  next
    case False
    then show ?thesis using Cons.IH [OF d] by (simp add: p run_screener_entry split: option.split)
  qed
qed

lemma SCREENER_URLS_distinct: "distinct (map fst SCREENER_URLS)"
  by (simp add: SCREENER_URLS_def)

lemma SCREENER_URLS_map_of:
  "(kind, url) \<in> set SCREENER_URLS \<Longrightarrow> map_of SCREENER_URLS kind = Some url"
  using SCREENER_URLS_distinct by simp

lemma set_dict_set:
  "(key, l) \<in> set (dict_set d k v) \<Longrightarrow> (key, l) \<in> set d \<or> (key = k \<and> l = v)"
  unfolding dict_set_def by (induction d) (auto split: if_splits)

lemma run_screener_stamped:
  assumes "\<forall>(key, l) \<in> set (screeners rd). \<forall>s \<in> set l. market_bias s \<noteq> None"
  shows "\<forall>(key, l) \<in> set (screeners (run_screener driver kind url bias rd)).
           \<forall>s \<in> set l. market_bias s \<noteq> None"
proof -
  have new: "\<forall>s \<in> set (snd (filter_stocks_by_market_trend (extracted (driver url)) bias)).
               market_bias s \<noteq> None"
    by (auto dest: filter_stamps)
  show ?thesis
    using assms new
    by (auto simp add: run_screener_def Let_def dest!: set_dict_set)
qed

lemma run_screeners_stamped:
  "\<forall>(key, l) \<in> set (screeners rd). \<forall>s \<in> set l. market_bias s \<noteq> None \<Longrightarrow>
   \<forall>(key, l) \<in> set (screeners (run_screeners driver urls bias rd)).
      \<forall>s \<in> set l. market_bias s \<noteq> None"
proof (induction urls arbitrary: rd)
  case Nil
  then show ?case by simp
next
  case (Cons p urls)
  obtain kind url where p: "p = (kind, url)" by (cases p)
  show ?case unfolding p run_screeners.simps
    by (rule Cons.IH) (rule run_screener_stamped [OF Cons.prems])
qed

lemma find_stocks_returns:
  assumes "dict_get (screeners rd) ''price_crossover_200'' = Inr pc"
    and "dict_get (screeners rd) ''one_hour_rsi'' = Inr oh"
    and "dict_get (screeners rd) ''five_min_rsi'' = Inr fm"
    and "\<forall>(key, l) \<in> set (screeners rd). \<forall>s \<in> set l. market_bias s \<noteq> None"
  shows "\<exists>out. find_stocks_in_multiple_screeners rd = Inr out"
proof -
  let ?idx = "index_screeners (screeners rd) []"
  let ?names = "combined_symbols_of (symbol_set pc) (symbol_set oh) (symbol_set fm)"
  have "\<forall>k \<in> set ?names. \<forall>s \<in> set (get_or_empty ?idx k). market_bias s \<noteq> None"
    using assms(4) by (auto simp add: index_all_lookup)
  from combine_all_total [OF this] show ?thesis
    using find_stocks_keys [OF assms(1-3)] by simp
qed

lemma check_market_trend_files:
  "results_file (snd (check_market_trend bull bear t fault fs)) = results_file fs
   \<and> temp_file (snd (check_market_trend bull bear t fault fs)) = temp_file fs"
  by (auto simp add: check_market_trend_def Let_def split: option.splits io_fault.splits)

lemma check_market_trend_no_fault:
  "\<exists>bias. fst (check_market_trend bull bear t None fs) = Inr bias"
  by (simp add: check_market_trend_def Let_def)

lemma load_after_trend:
  "load_current_results (snd (check_market_trend bull bear t fault fs)) = load_current_results fs"
  by (simp add: load_current_results_def check_market_trend_files)

text \<open>The state a cycle works on has the three screener keys and only stamped stocks.\<close>

lemma scan_cycle_outcome:
  assumes nofault: "trend_fault env = None"
    and keys: "\<forall>k \<in> fst ` set SCREENER_URLS. map_of (screeners (load_current_results fs)) k \<noteq> None"
    and st: "\<forall>(key, l) \<in> set (screeners (load_current_results fs)). \<forall>s \<in> set l. market_bias s \<noteq> None"
  shows "fst (scan_cycle env fs) = fst (save_scan_results default_results (save_fault env) fs)"
proof -
  obtain bias where b: "fst (check_market_trend (bullish_probe env) (bearish_probe env) (trend_time env) None fs) = Inr bias"
    using check_market_trend_no_fault by blast
  let ?files = "snd (check_market_trend (bullish_probe env) (bearish_probe env) (trend_time env) None fs)"
  have c: "check_market_trend (bullish_probe env) (bearish_probe env) (trend_time env) (trend_fault env) fs
             = (Inr bias, ?files)"
    using b nofault by (simp add: prod_eq_iff)
  let ?loaded = "(load_current_results fs)\<lparr>rd_market_bias := bias, last_update := Some (update_time env)\<rparr>"
  let ?rd = "run_screeners (driver_pages env) SCREENER_URLS bias ?loaded"
  have st0: "\<forall>(key, l) \<in> set (screeners ?loaded). \<forall>s \<in> set l. market_bias s \<noteq> None"
    using st by (simp del: split_paired_All)
  have st1: "\<forall>(key, l) \<in> set (screeners ?rd). \<forall>s \<in> set l. market_bias s \<noteq> None"
    by (rule run_screeners_stamped [OF st0])
  have key1: "\<And>k. k \<in> fst ` set SCREENER_URLS \<Longrightarrow> \<exists>v. dict_get (screeners ?rd) k = Inr v"
  proof -
    fix k assume "k \<in> fst ` set SCREENER_URLS"
    with keys have "map_of (screeners (load_current_results fs)) k \<noteq> None" by blast
    then have "map_of (screeners ?rd) k \<noteq> None"
      by (simp add: run_screeners_entry [OF SCREENER_URLS_distinct] split: option.split)
    then show "\<exists>v. dict_get (screeners ?rd) k = Inr v"
      by (auto simp add: dict_get_def)
  qed
  obtain pc where pc: "dict_get (screeners ?rd) ''price_crossover_200'' = Inr pc"
    using key1 [of "''price_crossover_200''"] by (auto simp add: SCREENER_URLS_def)
  obtain oh where oh: "dict_get (screeners ?rd) ''one_hour_rsi'' = Inr oh"
    using key1 [of "''one_hour_rsi''"] by (auto simp add: SCREENER_URLS_def)
  obtain fm where fm: "dict_get (screeners ?rd) ''five_min_rsi'' = Inr fm"
    using key1 [of "''five_min_rsi''"] by (auto simp add: SCREENER_URLS_def)
  obtain out where out: "find_stocks_in_multiple_screeners ?rd = Inr out"
    using find_stocks_returns [OF pc oh fm st1] by blast
  have "scan_cycle env fs = save_scan_results (?rd\<lparr>combined_stocks := out\<rparr>) (save_fault env) ?files"
    using out by (simp add: scan_cycle_def c load_after_trend Let_def)
  then show ?thesis by (simp add: save_fst)
qed

lemma default_results_keys:
  "\<forall>k \<in> fst ` set SCREENER_URLS. map_of (screeners default_results) k \<noteq> None"
  by (simp add: SCREENER_URLS_def default_results_def)

lemma default_results_stamped:
  "\<forall>(key, l) \<in> set (screeners default_results). \<forall>s \<in> set l. market_bias s \<noteq> None"
  by (simp add: default_results_def)

lemma load_first_cycle: "load_current_results (initialize_results_file no_files) = default_results"
  by (simp add: load_current_results_def initialize_results_file_def no_files_def)

lemma combine_all_err: "combine_all idx names = Inl e \<Longrightarrow> is_Exception e"
  by (induction names) (auto simp add: combined_entry_def Let_def split: sum.splits option.splits list.splits)

lemma find_stocks_err: "find_stocks_in_multiple_screeners rd = Inl e \<Longrightarrow> is_Exception e"
  by (auto simp add: find_stocks_in_multiple_screeners_def dict_get_def Let_def
      split: sum.splits option.splits dest: combine_all_err)

lemma save_err: "fst (save_scan_results data fault fs) = Inl e \<Longrightarrow> is_Exception e"
  by (auto simp add: save_fst split: option.splits io_fault.splits)

lemma fst_eqD: "p = (a, b) \<Longrightarrow> fst p = a"
  by simp

lemma scan_cycle_exception:
  "scan_cycle env fs = (Inl e, fs') \<Longrightarrow> is_Exception e"
proof -
  assume a: "scan_cycle env fs = (Inl e, fs')"
  obtain r fs1 where c: "check_market_trend (bullish_probe env) (bearish_probe env) (trend_time env) (trend_fault env) fs = (r, fs1)"
    by (cases "check_market_trend (bullish_probe env) (bearish_probe env) (trend_time env) (trend_fault env) fs")
  show "is_Exception e"
  proof (cases r)
    case (Inl x)
    then have "x = e" using a c by (simp add: scan_cycle_def)
    moreover have "is_Exception x"
      using c Inl by (auto simp add: check_market_trend_def Let_def split: option.splits io_fault.splits)
    ultimately show ?thesis by simp
  next
    case (Inr bias)
    then show ?thesis using a c
      by (auto simp add: scan_cycle_def Let_def split: sum.splits dest: find_stocks_err save_err [OF fst_eqD])
  qed
qed


lemma scan_cycle_saved:
  assumes "scan_cycle env fs = (Inr u, fs')"
  shows "\<exists>bias rd combined.
           fst (check_market_trend (bullish_probe env) (bearish_probe env) (trend_time env) (trend_fault env) fs) = Inr bias
         \<and> rd = run_screeners (driver_pages env) SCREENER_URLS bias
                  ((load_current_results fs)\<lparr>rd_market_bias := bias, last_update := Some (update_time env)\<rparr>)
         \<and> find_stocks_in_multiple_screeners rd = Inr combined
         \<and> results_file fs' = Some (Dumped (rd\<lparr>combined_stocks := combined\<rparr>))"
proof -
  obtain r files1 where c: "check_market_trend (bullish_probe env) (bearish_probe env) (trend_time env) (trend_fault env) fs = (r, files1)"
    by (cases "check_market_trend (bullish_probe env) (bearish_probe env) (trend_time env) (trend_fault env) fs")
  have ld: "load_current_results files1 = load_current_results fs"
    using load_after_trend [of "bullish_probe env" "bearish_probe env" "trend_time env" "trend_fault env" fs] c
    by simp
  show ?thesis
    using assms c ld
    by (auto simp add: scan_cycle_def Let_def save_scan_results_def save_try_body_cases
        split: sum.splits option.splits io_fault.splits if_splits)
qed

text \<open>
  Claim C9. In a cycle that runs to its save, a screener whose page load or scan trigger
  failed keeps, in the saved state, the entry it had in the state loaded at the start of
  the cycle (the previous cycle's save, or the empty default when there was none), while
  every other screener whose page load and scan succeeded gets this cycle's filtered rows.
\<close>

theorem failed_scan_keeps_entry:
  assumes "scan_cycle env fs = (Inr u, fs')"
    and "(kind, url) \<in> set SCREENER_URLS"
    and "\<not> page_loaded (driver_pages env url) \<or> \<not> scan_ran (driver_pages env url)"
  shows "dict_get (screeners (load_current_results fs')) kind
           = dict_get (screeners (load_current_results fs)) kind
       \<and> (\<exists>bias. fst (check_market_trend (bullish_probe env) (bearish_probe env) (trend_time env)
                        (trend_fault env) fs) = Inr bias
            \<and> (\<forall>other url'. (other, url') \<in> set SCREENER_URLS \<and> other \<noteq> kind
                   \<and> page_loaded (driver_pages env url') \<and> scan_ran (driver_pages env url')
                 \<longrightarrow> dict_get (screeners (load_current_results fs')) other
                       = Inr (snd (filter_stocks_by_market_trend (extracted (driver_pages env url')) bias))))"
proof -
  from scan_cycle_saved [OF assms(1)] obtain bias rd combined where
    b: "fst (check_market_trend (bullish_probe env) (bearish_probe env) (trend_time env) (trend_fault env) fs) = Inr bias"
    and rd: "rd = run_screeners (driver_pages env) SCREENER_URLS bias
                  ((load_current_results fs)\<lparr>rd_market_bias := bias, last_update := Some (update_time env)\<rparr>)"
    and saved: "results_file fs' = Some (Dumped (rd\<lparr>combined_stocks := combined\<rparr>))"
    by blast
  have ld: "screeners (load_current_results fs') = screeners rd"
    using saved by (simp add: load_current_results_def)
  have entry: "\<And>k. map_of (screeners rd) k =
     (case map_of SCREENER_URLS k of
        None \<Rightarrow> map_of (screeners (load_current_results fs)) k
      | Some url \<Rightarrow>
          if page_loaded (driver_pages env url) \<and> scan_ran (driver_pages env url)
          then Some (snd (filter_stocks_by_market_trend (extracted (driver_pages env url)) bias))
          else map_of (screeners (load_current_results fs)) k)"
    unfolding rd by (simp add: run_screeners_entry [OF SCREENER_URLS_distinct] split: option.split)
  have kept: "dict_get (screeners (load_current_results fs')) kind
           = dict_get (screeners (load_current_results fs)) kind"
    using assms(2,3) by (auto simp add: dict_get_def ld entry SCREENER_URLS_map_of)
  have others: "\<forall>other url'. (other, url') \<in> set SCREENER_URLS \<and> other \<noteq> kind
                   \<and> page_loaded (driver_pages env url') \<and> scan_ran (driver_pages env url')
                 \<longrightarrow> dict_get (screeners (load_current_results fs')) other
                       = Inr (snd (filter_stocks_by_market_trend (extracted (driver_pages env url')) bias))"
    by (auto simp add: dict_get_def ld entry SCREENER_URLS_map_of)
  from kept b others show ?thesis by blast
qed

lemma one_hour_down_cycle:
  "fst (scan_cycle one_hour_down_pass (initialize_results_file no_files)) = Inr ()"
proof -
  have "fst (scan_cycle one_hour_down_pass (initialize_results_file no_files))
      = fst (save_scan_results default_results (save_fault one_hour_down_pass) (initialize_results_file no_files))"
  proof (rule scan_cycle_outcome)
    show "trend_fault one_hour_down_pass = None"
      by (simp add: one_hour_down_pass_def clean_pass_def)
    show "\<forall>k \<in> fst ` set SCREENER_URLS.
            map_of (screeners (load_current_results (initialize_results_file no_files))) k \<noteq> None"
      unfolding load_first_cycle by (rule default_results_keys)
    show "\<forall>(key, l) \<in> set (screeners (load_current_results (initialize_results_file no_files))).
            \<forall>s \<in> set l. market_bias s \<noteq> None"
      unfolding load_first_cycle by (rule default_results_stamped)
  qed
  then show ?thesis by (simp add: save_fst one_hour_down_pass_def clean_pass_def)
qed

lemma one_hour_down_bias:
  "fst (check_market_trend (bullish_probe one_hour_down_pass) (bearish_probe one_hour_down_pass)
         (trend_time one_hour_down_pass) (trend_fault one_hour_down_pass) fs) = Inr ''neutral''"
  by (simp add: one_hour_down_pass_def clean_pass_def check_market_trend_unloaded no_page_def)

theorem failed_scan_keeps_entry_witness:
  "dict_get (screeners (load_current_results
       (snd (scan_cycle one_hour_down_pass (initialize_results_file no_files))))) ''one_hour_rsi'' = Inr []
   \<and> dict_get (screeners (load_current_results
       (snd (scan_cycle one_hour_down_pass (initialize_results_file no_files))))) ''price_crossover_200''
       = Inr [row ''INFY'' ''price_crossover_200'']
   \<and> dict_get (screeners (load_current_results
       (snd (scan_cycle one_hour_down_pass (initialize_results_file no_files))))) ''five_min_rsi'' = Inr []"
proof -
  let ?fs = "initialize_results_file no_files"
  let ?after = "snd (scan_cycle one_hour_down_pass ?fs)"
  have run: "scan_cycle one_hour_down_pass ?fs = (Inr (), ?after)"
    using one_hour_down_cycle by (simp add: prod_eq_iff)
  have src: "(''one_hour_rsi'', ''https://chartink.com/screener/1-hour-rsi-2119'') \<in> set SCREENER_URLS"
    by (simp add: SCREENER_URLS_def)
  have down: "\<not> page_loaded (driver_pages one_hour_down_pass ''https://chartink.com/screener/1-hour-rsi-2119'')
            \<or> \<not> scan_ran (driver_pages one_hour_down_pass ''https://chartink.com/screener/1-hour-rsi-2119'')"
    by (simp add: one_hour_down_pass_def one_hour_down_def)
  have pc: "(''price_crossover_200'', ''https://chartink.com/screener/price-corssover-200'') \<in> set SCREENER_URLS"
    and fm: "(''five_min_rsi'', ''https://chartink.com/screener/5-minutes-rsi-100'') \<in> set SCREENER_URLS"
    by (simp_all add: SCREENER_URLS_def)
  have pages:
    "driver_pages one_hour_down_pass ''https://chartink.com/screener/price-corssover-200''
       = \<lparr>page_loaded = True, scan_ran = True, extracted = [row ''INFY'' ''price_crossover_200'']\<rparr>"
    "driver_pages one_hour_down_pass ''https://chartink.com/screener/5-minutes-rsi-100''
       = \<lparr>page_loaded = True, scan_ran = True, extracted = []\<rparr>"
    by (simp_all add: one_hour_down_pass_def one_hour_down_def)
  have filt: "snd (filter_stocks_by_market_trend [row ''INFY'' ''price_crossover_200''] ''neutral'')
      = [row ''INFY'' ''price_crossover_200'']"
    unfolding filter_returned_list by (simp add: row_def)
  from failed_scan_keeps_entry [OF run src down]
  have kept: "dict_get (screeners (load_current_results ?after)) ''one_hour_rsi''
           = dict_get (screeners (load_current_results ?fs)) ''one_hour_rsi''"
    and others: "\<And>other url'. (other, url') \<in> set SCREENER_URLS \<Longrightarrow> other \<noteq> ''one_hour_rsi'' \<Longrightarrow>
         page_loaded (driver_pages one_hour_down_pass url') \<Longrightarrow> scan_ran (driver_pages one_hour_down_pass url') \<Longrightarrow>
         dict_get (screeners (load_current_results ?after)) other
           = Inr (snd (filter_stocks_by_market_trend (extracted (driver_pages one_hour_down_pass url')) ''neutral''))"
    by (auto simp add: one_hour_down_bias)
  have a: "dict_get (screeners (load_current_results ?after)) ''one_hour_rsi'' = Inr []"
    unfolding kept by (simp add: load_first_cycle default_results_def dict_get_def)
  have b: "dict_get (screeners (load_current_results ?after)) ''price_crossover_200''
       = Inr [row ''INFY'' ''price_crossover_200'']"
    using others [OF pc] by (simp add: pages filt del: filter_stocks_by_market_trend.simps)
  have c: "dict_get (screeners (load_current_results ?after)) ''five_min_rsi'' = Inr []"
    using others [OF fm] by (simp add: pages del: filter_stocks_by_market_trend.simps) simp
  from a b c show ?thesis by blast
qed

section \<open>The scan loop\<close>

lemma scan_loop_append:
  "scan_loop (xs @ ys) fs n =
     (case scan_loop xs fs n of
        (Running, fs', n') \<Rightarrow> scan_loop ys fs' n'
      | (Raised e, fs', n') \<Rightarrow> (Raised e, fs', n'))"
  by (induction xs arbitrary: fs n) (auto split: prod.splits sum.splits loop_exit.splits)

lemma scan_loop_cycle_raises:
  "is_market_hours (gate_time env) \<Longrightarrow> scan_cycle env fs = (Inl e, fs') \<Longrightarrow>
   scan_loop (env # rest) fs n = (Raised e, fs', n)"
  by simp

lemma main_after_raise:
  assumes "scan_loop before (initialize_results_file fs0) 0 = (Running, fs, n)"
    and "is_market_hours (gate_time env)"
    and "scan_cycle env fs = (Inl e, fs')"
  shows "main True (before @ env # rest) fs0 =
           \<lparr>exit_state = Raised e, final_files = fs', cycles_completed = n,
            main_log = [Critical e, Info ''Browser closed''], browser_killed = True\<rparr>"
proof -
  have loop: "scan_loop (before @ env # rest) (initialize_results_file fs0) 0 = (Raised e, fs', n)"
    using assms by (simp add: scan_loop_append)
  have "is_Exception e" using assms(3) by (rule scan_cycle_exception)
  then have log: "(case Raised e of Running \<Rightarrow> [] | Raised KeyboardInterrupt \<Rightarrow> [Info ''Scanner stopped by user'']
                   | Raised x \<Rightarrow> [Critical x]) = [Critical e]"
    by (cases e) simp_all
  show ?thesis
    unfolding main_def Let_def using log by (simp add: loop)
qed

lemma clean_cycle:
  "fst (scan_cycle clean_pass (initialize_results_file no_files)) = Inr ()"
proof -
  have "fst (scan_cycle clean_pass (initialize_results_file no_files))
      = fst (save_scan_results default_results (save_fault clean_pass) (initialize_results_file no_files))"
  proof (rule scan_cycle_outcome)
    show "trend_fault clean_pass = None"
      by (simp add: clean_pass_def)
    show "\<forall>k \<in> fst ` set SCREENER_URLS.
            map_of (screeners (load_current_results (initialize_results_file no_files))) k \<noteq> None"
      unfolding load_first_cycle by (rule default_results_keys)
    show "\<forall>(key, l) \<in> set (screeners (load_current_results (initialize_results_file no_files))).
            \<forall>s \<in> set l. market_bias s \<noteq> None"
      unfolding load_first_cycle by (rule default_results_stamped)
  qed
  then show ?thesis by (simp add: save_fst clean_pass_def)
qed

lemma failing_cycle:
  "fst (scan_cycle failing_pass (initialize_results_file no_files)) = Inl (OSError ''combined_scan_results.json'')"
proof -
  have "fst (scan_cycle failing_pass (initialize_results_file no_files))
      = fst (save_scan_results default_results (save_fault failing_pass) (initialize_results_file no_files))"
  proof (rule scan_cycle_outcome)
    show "trend_fault failing_pass = None"
      by (simp add: failing_pass_def clean_pass_def)
    show "\<forall>k \<in> fst ` set SCREENER_URLS.
            map_of (screeners (load_current_results (initialize_results_file no_files))) k \<noteq> None"
      unfolding load_first_cycle by (rule default_results_keys)
    show "\<forall>(key, l) \<in> set (screeners (load_current_results (initialize_results_file no_files))).
            \<forall>s \<in> set l. market_bias s \<noteq> None"
      unfolding load_first_cycle by (rule default_results_stamped)
  qed
  then show ?thesis by (simp add: save_fst failing_pass_def clean_pass_def)
qed

lemma weekday_noon_open: "is_market_hours weekday_noon"
  by (simp add: is_market_hours_iff weekday_noon_def weekday_def)

lemma gate_times: "gate_time clean_pass = weekday_noon" "gate_time failing_pass = weekday_noon"
  "interrupted clean_pass = False" "interrupted failing_pass = False"
  by (simp_all add: clean_pass_def failing_pass_def)

lemma clean_pass_completes:
  "cycles_completed (main True [clean_pass] no_files) = 1
   \<and> exit_state (main True [clean_pass] no_files) = Running"
proof -
  obtain after where c: "scan_cycle clean_pass (initialize_results_file no_files) = (Inr (), after)"
    using clean_cycle by (cases "scan_cycle clean_pass (initialize_results_file no_files)") auto
  have "scan_loop [clean_pass] (initialize_results_file no_files) 0 = (Running, after, 1)"
    by (simp add: gate_times weekday_noon_open c)
  then show ?thesis by (simp add: main_def Let_def)
qed

lemma interrupt_ends_scan_loop:
  assumes "scan_loop before (initialize_results_file fs0) 0 = (Running, fs, n)"
    and "interrupted env"
    and "scan_cycle env fs = (Inr u, fs') \<or> \<not> is_market_hours (gate_time env)"
  shows "exit_state (main True (before @ env # rest) fs0) = Raised KeyboardInterrupt
       \<and> main_log (main True (before @ env # rest) fs0) = [Info ''Scanner stopped by user'', Info ''Browser closed'']
       \<and> browser_killed (main True (before @ env # rest) fs0)"
proof -
  have "\<exists>fs'' n'. scan_loop (before @ env # rest) (initialize_results_file fs0) 0 = (Raised KeyboardInterrupt, fs'', n')"
    using assms by (auto simp add: scan_loop_append)
  then show ?thesis by (auto simp add: main_def Let_def)
qed

text \<open>
  Claim C2, as the code has it. The \<^verbatim>\<open>try\<close> block of \<^verbatim>\<open>main\<close> encloses the whole
  \<^verbatim>\<open>while\<close> loop. When a scan cycle raises an exception, after any number of passes that
  did not, the exception is caught once, outside the loop: it is logged as critical, the
  browser is closed, and \<^verbatim>\<open>main\<close> ends with the files as that cycle left them. The passes
  that would have followed never run, whatever they are.
\<close>

theorem exception_ends_scan_loop:
  assumes "scan_loop before (initialize_results_file fs0) 0 = (Running, fs, n)"
    and "is_market_hours (gate_time env)"
    and "scan_cycle env fs = (Inl e, fs')"
  shows "main True (before @ env # rest) fs0 =
           \<lparr>exit_state = Raised e, final_files = fs', cycles_completed = n,
            main_log = [Critical e, Info ''Browser closed''], browser_killed = True\<rparr>"
  using assms by (rule main_after_raise)

theorem exception_ends_scan_loop_witness:
  "main True ([] @ failing_pass # [clean_pass]) no_files =
     \<lparr>exit_state = Raised (OSError ''combined_scan_results.json''),
      final_files = snd (scan_cycle failing_pass (initialize_results_file no_files)),
      cycles_completed = 0,
      main_log = [Critical (OSError ''combined_scan_results.json''), Info ''Browser closed''],
      browser_killed = True\<rparr>"
proof -
  have h1: "scan_loop [] (initialize_results_file no_files) 0 = (Running, initialize_results_file no_files, 0)"
    by simp
  have h2: "is_market_hours (gate_time failing_pass)"
    by (simp add: gate_times weekday_noon_open)
  have h3: "scan_cycle failing_pass (initialize_results_file no_files)
      = (Inl (OSError ''combined_scan_results.json''), snd (scan_cycle failing_pass (initialize_results_file no_files)))"
    using failing_cycle by (simp add: prod_eq_iff)
  show ?thesis by (rule exception_ends_scan_loop [OF h1 h2 h3])
qed

text \<open>
  The claim as written fails: after a cycle whose save raises, the next pass, which alone
  would complete a cycle, is not run.
\<close>

theorem exception_skips_next_cycle:
  "exit_state (main True [failing_pass, clean_pass] no_files) = Raised (OSError ''combined_scan_results.json'')
   \<and> cycles_completed (main True [failing_pass, clean_pass] no_files) = 0
   \<and> cycles_completed (main True [clean_pass] no_files) = 1"
proof -
  have h1: "scan_loop [] (initialize_results_file no_files) 0 = (Running, initialize_results_file no_files, 0)"
    by simp
  have h2: "is_market_hours (gate_time failing_pass)"
    by (simp add: gate_times weekday_noon_open)
  have h3: "scan_cycle failing_pass (initialize_results_file no_files)
      = (Inl (OSError ''combined_scan_results.json''), snd (scan_cycle failing_pass (initialize_results_file no_files)))"
    using failing_cycle by (simp add: prod_eq_iff)
  from main_after_raise [OF h1 h2 h3, of "[clean_pass]"] clean_pass_completes
  show ?thesis by simp
qed

end
